theory Spec2Isabelle
  imports Complex_Main "HOL-Library.AList" "HOL-Library.Word"
begin

section \<open>The review form page (student_form.js)\<close>

subsection \<open>Data\<close>

text \<open>
  A DOM element, reduced to the properties the two scripts read or write.
  \<open>classList\<close> is the ordered token set of the class attribute; an assignment to
  \<open>className\<close> replaces it by the tokens of the assigned string. \<open>display\<close> and
  \<open>width\<close> are \<open>style.display\<close> and \<open>style.width\<close>. The scripts use \<open>innerHTML\<close> and
  \<open>textContent\<close> on different elements, and never read either, so both are kept as
  written.
\<close>

record element =
  el_value :: string
  classList :: "string list"
  textContent :: string
  innerHTML :: string
  display :: string
  width :: string
  disabled :: bool

text \<open>
  One entry of \<open>data.extracted_fields\<close>: \<open>{value: string, conf: number}\<close>, either
  property possibly absent. A JSON number is a finite double; the script only compares
  it with \<open>0.75\<close>, \<open>0.5\<close> and \<open>0\<close>, which are doubles, so the number is modelled by
  the real it denotes.
\<close>

record extracted_field =
  field_value :: "string option"
  conf :: "real option"

text \<open>The parsed object, as its own keys in order with their values.\<close>

type_synonym extraction = "(string \<times> extracted_field) list"

datatype confidence_level = High | Medium | Low | Unset

text \<open>\<open>fields[apiField].conf || 0\<close>: an absent confidence is \<open>0\<close>.\<close>

definition conf_or_zero :: "real option \<Rightarrow> real" where
  "conf_or_zero c = (case c of None \<Rightarrow> 0 | Some x \<Rightarrow> x)"

text \<open>
  The chain of comparisons of \<open>autoFillForm\<close> (lines 70, 73, 79), in its order; the
  last case is the one in which the script renders nothing.
\<close>

definition level :: "real \<Rightarrow> confidence_level" where
  "level c =
     (if c \<ge> 0.75 then High
      else if c \<ge> 0.5 then Medium
      else if c > 0 then Low
      else Unset)"

text \<open>
  A thrown value. Only \<open>error.message\<close> is ever read. The messages of the errors the
  runtime itself raises are those of V8; no property below depends on their wording.
\<close>

datatype js_error =
    Error string
  | TypeError string
  | ReferenceError string
  | SyntaxError string

fun message :: "js_error \<Rightarrow> string" where
  "message (Error m) = m"
| "message (TypeError m) = m"
| "message (ReferenceError m) = m"
| "message (SyntaxError m) = m"

definition quoted :: "string \<Rightarrow> string" where
  "quoted s = CHR 0x27 # s @ [CHR 0x27]"

definition null_read :: "string \<Rightarrow> js_error" where
  "null_read prop = TypeError (''Cannot read properties of null (reading '' @ quoted prop @ '')'')"

definition null_write :: "string \<Rightarrow> js_error" where
  "null_write prop = TypeError (''Cannot set properties of null (setting '' @ quoted prop @ '')'')"

text \<open>One entry of the \<open>field_confidences\<close> object of the payload.\<close>

record confidence_entry =
  entry_value :: string
  entry_conf :: real

text \<open>
  The object literal \<open>formData\<close> of \<open>submitForm\<close>. Its property \<open>level\<close> is the field
  \<open>level_field\<close>, \<open>level\<close> being the classification above.
\<close>

record submission =
  upload_id :: string
  name :: string
  apaar_id :: string
  institution_code :: string
  organization :: string
  internship_title :: string
  start_date :: string
  end_date :: string
  hours :: string
  level_field :: string
  logs :: string
  field_confidences :: "(string \<times> confidence_entry) list"

text \<open>
  A call of \<open>fetch\<close> by the review page, and what the network answers: the promise of
  \<open>fetch\<close> is rejected, or it resolves to a response with its \<open>ok\<close> flag and its body.
  \<open>BodyData u\<close> is a parsed body whose property \<open>redirect_url\<close> is \<open>u\<close> (\<open>None\<close> when it
  has none); \<open>BodyThrows\<close> stands for a body for which \<open>response.json()\<close> is rejected or
  for which reading \<open>redirect_url\<close> throws. A listener that awaits the network is run as
  one step, with the answer as an argument; \<open>loadExtractedData\<close>, which only fetches the
  argument of \<open>autoFillForm\<close>, is not modelled.
\<close>

record request =
  url :: string
  http_method :: string
  content_type :: string
  body :: submission

datatype json_result =
    BodyThrows js_error
  | BodyData "string option"

record response =
  ok :: bool
  json :: json_result

datatype fetch_result =
    Rejected js_error
  | Resolved response

text \<open>
  The state of the page: the module variables of the script, the document, and what the
  script has done to the outside. \<open>elements\<close> is \<open>document.getElementById\<close>.
  \<open>confidenceIndicator\<close> and \<open>errorSection\<close> are the elements bound once at load time;
  their ids are none of those the script looks up later. \<open>modalShown\<close> is the state of
  \<open>confirmModal\<close>, \<open>requests\<close> the calls of \<open>fetch\<close> in order, \<open>location_href\<close> the last
  assignment to \<open>window.location.href\<close>, and \<open>unhandled\<close> the errors that left a
  listener uncaught.
\<close>

record page =
  uploadId :: string
  fieldConfidences :: "string \<rightharpoonup> real"
  hasLowConfidence :: bool
  elements :: "string \<rightharpoonup> element"
  confidenceIndicator :: element
  errorSection :: element
  modalShown :: bool
  requests :: "request list"
  location_href :: "string option"
  unhandled :: "js_error list"

definition fieldMap :: "(string \<times> string) list" where
  "fieldMap =
     [(''name'', ''name''),
      (''apaar_id'', ''apaarId''),
      (''institution_code'', ''institutionCode''),
      (''organization'', ''organization''),
      (''internship_title'', ''internshipTitle''),
      (''start_date'', ''startDate''),
      (''end_date'', ''endDate''),
      (''hours'', ''hours'')]"

subsection \<open>DOM operations\<close>

definition classList_add :: "string \<Rightarrow> element \<Rightarrow> element" where
  "classList_add c e = (if c \<in> set (classList e) then e else e\<lparr>classList := classList e @ [c]\<rparr>)"

definition classList_remove :: "string \<Rightarrow> element \<Rightarrow> element" where
  "classList_remove c e = e\<lparr>classList := removeAll c (classList e)\<rparr>"

text \<open>
  A write through a reference to the element with id \<open>i\<close>. The script holds such a
  reference only after \<open>getElementById\<close> returned it.
\<close>

definition update_element :: "string \<Rightarrow> (element \<Rightarrow> element) \<Rightarrow> page \<Rightarrow> page" where
  "update_element i f st =
     (case elements st i of
        None \<Rightarrow> st
      | Some e \<Rightarrow> st\<lparr>elements := (elements st)(i \<mapsto> f e)\<rparr>)"

text \<open>The three non-ASCII characters of the script's texts, in UTF-8.\<close>

definition check_mark :: string where
  "check_mark = [CHR 0xE2, CHR 0x9C, CHR 0x93]"

definition warning_sign :: string where
  "warning_sign = [CHR 0xE2, CHR 0x9A, CHR 0xA0]"

definition check_mark_button :: string where
  "check_mark_button = [CHR 0xE2, CHR 0x9C, CHR 0x85]"

definition variation_selector :: string where
  "variation_selector = [CHR 0xEF, CHR 0xB8, CHR 0x8F]"

subsection \<open>autoFillForm\<close>

text \<open>
  The badge of one field (lines 67 to 86), for the confidence \<open>c\<close> and the element
  \<open>confDiv\<close> found. \<open>pct c\<close> stands for \<open>(conf * 100).toFixed(0)\<close>, a floating-point
  formatting that is left to the runtime. The second component is \<open>allHighConfidence\<close>.
\<close>

definition show_confidence ::
  "(real \<Rightarrow> string) \<Rightarrow> string \<Rightarrow> real \<Rightarrow> page \<times> bool \<Rightarrow> page \<times> bool" where
  "show_confidence pct formField c = (\<lambda>(st, allHighConfidence).
     (case level c of
        High \<Rightarrow>
          (update_element (formField @ ''_conf'')
             (\<lambda>e. e\<lparr>classList := [''field-confidence'', ''confidence-high''],
                    textContent := check_mark @ '' High confidence ('' @ pct c @ ''%)''\<rparr>) st,
           allHighConfidence)
      | Medium \<Rightarrow>
          ((update_element formField (classList_add ''low-confidence-field'')
             (update_element (formField @ ''_conf'')
               (\<lambda>e. e\<lparr>classList := [''field-confidence'', ''confidence-medium''],
                      textContent := warning_sign @ '' Medium confidence ('' @ pct c
                                       @ ''%) - Please verify''\<rparr>) st))
             \<lparr>hasLowConfidence := True\<rparr>,
           False)
      | Low \<Rightarrow>
          ((update_element formField (classList_add ''low-confidence-field'')
             (update_element (formField @ ''_conf'')
               (\<lambda>e. e\<lparr>classList := [''field-confidence'', ''confidence-low''],
                      textContent := warning_sign @ '' Low confidence ('' @ pct c
                                       @ ''%) - Please verify''\<rparr>) st))
             \<lparr>hasLowConfidence := True\<rparr>,
           False)
      | Unset \<Rightarrow> (st, allHighConfidence)))"

text \<open>
  The body of the loop over \<open>Object.entries(fieldMap)\<close> (lines 51 to 88). A string is
  truthy when it is not empty, an element when it exists.
\<close>

definition fill_field ::
  "(real \<Rightarrow> string) \<Rightarrow> extraction \<Rightarrow> string \<times> string \<Rightarrow> page \<times> bool \<Rightarrow> page \<times> bool" where
  "fill_field pct flds = (\<lambda>(apiField, formField) (st, allHighConfidence).
     (case map_of flds apiField of
        None \<Rightarrow> (st, allHighConfidence)
      | Some f \<Rightarrow>
          (case (field_value f, elements st formField) of
             (Some v, Some input) \<Rightarrow>
               if v = [] then (st, allHighConfidence)
               else
                 let c = conf_or_zero (conf f);
                     st1 = update_element formField
                             (\<lambda>e. (classList_add ''animate-fill'' e)\<lparr>el_value := v\<rparr>) st;
                     st2 = st1\<lparr>fieldConfidences := (fieldConfidences st1)(formField \<mapsto> c)\<rparr>
                 in (case elements st2 (formField @ ''_conf'') of
                       None \<Rightarrow> (st2, allHighConfidence)
                     | Some confDiv \<Rightarrow> show_confidence pct formField c (st2, allHighConfidence))
           | _ \<Rightarrow> (st, allHighConfidence))))"

definition all_high_banner :: "element \<Rightarrow> element" where
  "all_high_banner e =
     e\<lparr>display := ''block'',
       classList := [''alert'', ''confidence-indicator-all-high''],
       innerHTML := ''<strong>'' @ check_mark_button @ '' All fields high confidence</strong>''
                      @ '' - Auto-filled data looks accurate''\<rparr>"

definition needs_attention_banner :: "element \<Rightarrow> element" where
  "needs_attention_banner e =
     e\<lparr>display := ''block'',
       classList := [''alert'', ''confidence-indicator-needs-attention''],
       innerHTML := ''<strong>'' @ warning_sign @ variation_selector
                      @ '' Some fields require your attention</strong>''
                      @ '' - Please review and verify highlighted fields''\<rparr>"

definition autoFillForm :: "(real \<Rightarrow> string) \<Rightarrow> extraction \<Rightarrow> page \<Rightarrow> page" where
  "autoFillForm pct flds st =
     (case fold (fill_field pct flds) fieldMap (st\<lparr>hasLowConfidence := False\<rparr>, True) of
        (st', allHighConfidence) \<Rightarrow>
          if length flds > 0 then
            if allHighConfidence \<and> \<not> hasLowConfidence st'
            then st'\<lparr>confidenceIndicator := all_high_banner (confidenceIndicator st')\<rparr>
            else st'\<lparr>confidenceIndicator := needs_attention_banner (confidenceIndicator st')\<rparr>
          else st')"

subsection \<open>The change listener\<close>

text \<open>
  The listener registered on every \<open>input\<close>, \<open>textarea\<close> and \<open>select\<close>, run for the
  control with id \<open>field_id\<close>. A change event reaches only a control of the document.
\<close>

definition change_listener :: "string \<Rightarrow> page \<Rightarrow> page" where
  "change_listener field_id st =
     (case elements st field_id of
        None \<Rightarrow> st
      | Some field \<Rightarrow>
          let st1 = update_element field_id
                      (\<lambda>e. classList_add ''field-verified''
                              (classList_remove ''low-confidence-field'' e)) st;
              st2 = st1\<lparr>fieldConfidences := (fieldConfidences st1)(field_id \<mapsto> 1)\<rparr>
          in update_element (field_id @ ''_conf'')
               (\<lambda>e. e\<lparr>classList := [''field-confidence'', ''confidence-high''],
                      textContent := check_mark @ '' Verified by student''\<rparr>) st2)"

subsection \<open>Submission\<close>

definition and_then :: "js_error + 'a \<Rightarrow> ('a \<Rightarrow> js_error + 'b) \<Rightarrow> js_error + 'b" where
  "and_then r k = (case r of Inl e \<Rightarrow> Inl e | Inr x \<Rightarrow> k x)"

text \<open>\<open>document.getElementById(i).value\<close>, which throws when there is no such element.\<close>

definition value_of :: "page \<Rightarrow> string \<Rightarrow> js_error + string" where
  "value_of st i =
     (case elements st i of
        None \<Rightarrow> Inl (null_read ''value'')
      | Some e \<Rightarrow> Inr (el_value e))"

fun buildConfidenceLoop ::
  "page \<Rightarrow> (string \<times> string) list \<Rightarrow> (string \<times> confidence_entry) list
     \<Rightarrow> js_error + (string \<times> confidence_entry) list" where
  "buildConfidenceLoop st [] result = Inr result"
| "buildConfidenceLoop st ((apiField, formField) # rest) result =
     (case fieldConfidences st formField of
        None \<Rightarrow> buildConfidenceLoop st rest result
      | Some c \<Rightarrow>
          and_then (value_of st formField)
            (\<lambda>v. buildConfidenceLoop st rest
                    (AList.update apiField \<lparr>entry_value = v, entry_conf = c\<rparr> result)))"

definition buildConfidenceObject :: "page \<Rightarrow> js_error + (string \<times> confidence_entry) list" where
  "buildConfidenceObject st = buildConfidenceLoop st fieldMap []"

text \<open>The object literal \<open>formData\<close>; its properties are evaluated in order.\<close>

definition collect_form_data :: "page \<Rightarrow> js_error + submission" where
  "collect_form_data st =
     and_then (value_of st ''name'') (\<lambda>v1.
     and_then (value_of st ''apaarId'') (\<lambda>v2.
     and_then (value_of st ''institutionCode'') (\<lambda>v3.
     and_then (value_of st ''organization'') (\<lambda>v4.
     and_then (value_of st ''internshipTitle'') (\<lambda>v5.
     and_then (value_of st ''startDate'') (\<lambda>v6.
     and_then (value_of st ''endDate'') (\<lambda>v7.
     and_then (value_of st ''hours'') (\<lambda>v8.
     and_then (value_of st ''level'') (\<lambda>v9.
     and_then (value_of st ''logs'') (\<lambda>v10.
     and_then (buildConfidenceObject st) (\<lambda>fc.
       Inr \<lparr>upload_id = uploadId st, name = v1, apaar_id = v2, institution_code = v3,
            organization = v4, internship_title = v5, start_date = v6, end_date = v7,
            hours = v8, level_field = v9, logs = v10, field_confidences = fc\<rparr>)))))))))))"

definition submit_url :: string where
  "submit_url = ''https://freelance-backend-y0el.onrender.com/api/submit_internship''"

text \<open>
  The \<open>try\<close> block of \<open>submitForm\<close>: the state when the block is left, and the error
  thrown, if any. \<open>net\<close> is what \<open>fetch\<close> and then \<open>response.json()\<close> settle to.
\<close>

definition try_submit :: "fetch_result \<Rightarrow> page \<Rightarrow> page \<times> js_error option" where
  "try_submit net st =
     (case elements st ''submitBtn'' of
        None \<Rightarrow> (st, Some (null_write ''disabled''))
      | Some submitBtn \<Rightarrow>
          let st1 = update_element ''submitBtn''
                      (\<lambda>e. e\<lparr>disabled := True, textContent := ''Processing...''\<rparr>) st
          in (case collect_form_data st1 of
                Inl e \<Rightarrow> (st1, Some e)
              | Inr formData \<Rightarrow>
                  let st2 = st1\<lparr>requests := requests st1 @
                              [\<lparr>url = submit_url, http_method = ''POST'',
                                content_type = ''application/json'', body = formData\<rparr>]\<rparr>
                  in (case net of
                        Rejected e \<Rightarrow> (st2, Some e)
                      | Resolved r \<Rightarrow>
                          if \<not> ok r then (st2, Some (Error ''Submission failed''))
                          else (case json r of
                                  BodyThrows e \<Rightarrow> (st2, Some e)
                                | BodyData redirect_url \<Rightarrow>
                                    (st2\<lparr>location_href :=
                                           Some (case redirect_url of
                                                   None \<Rightarrow> ''undefined''
                                                 | Some u \<Rightarrow> u)\<rparr>,
                                     None)))))"

text \<open>
  The \<open>catch\<close> block. The constant \<open>submitBtn\<close> of the \<open>try\<close> block is not in scope
  here: the identifier is resolved on the global object, where the browser exposes the
  element whose id is \<open>submitBtn\<close>, and is a \<open>ReferenceError\<close> when there is none. That
  error leaves \<open>submitForm\<close> and its caller uncaught.
\<close>

definition catch_submit :: "js_error \<Rightarrow> page \<Rightarrow> page" where
  "catch_submit error st =
     (let st1 = st\<lparr>errorSection := (errorSection st)
                  \<lparr>display := ''block'',
                   textContent := ''Submission failed: '' @ message error\<rparr>\<rparr>
      in (case elements st1 ''submitBtn'' of
            None \<Rightarrow> st1\<lparr>unhandled := unhandled st1 @ [ReferenceError ''submitBtn is not defined'']\<rparr>
          | Some submitBtn \<Rightarrow>
              update_element ''submitBtn''
                (\<lambda>e. e\<lparr>disabled := False, textContent := ''Submit for Credit Evaluation''\<rparr>) st1))"

definition submitForm :: "fetch_result \<Rightarrow> page \<Rightarrow> page" where
  "submitForm net st =
     (case try_submit net st of
        (st', None) \<Rightarrow> st'
      | (st', Some error) \<Rightarrow> catch_submit error st')"

text \<open>The \<open>submit\<close> listener of the form, and the \<open>click\<close> listener of \<open>confirmSubmit\<close>.\<close>

definition submit_listener :: "fetch_result \<Rightarrow> page \<Rightarrow> page" where
  "submit_listener net st =
     (if hasLowConfidence st then st\<lparr>modalShown := True\<rparr> else submitForm net st)"

definition confirmSubmit_listener :: "fetch_result \<Rightarrow> page \<Rightarrow> page" where
  "confirmSubmit_listener net st = submitForm net (st\<lparr>modalShown := False\<rparr>)"

subsection \<open>What one pass of the loop does\<close>

text \<open>
  Notions for stating and proving properties of \<open>autoFillForm\<close>; \<open>fill_field_step\<close>
  below shows that they describe the loop body. \<open>value_at\<close> and \<open>conf_at\<close> are the
  value and the confidence the extraction result gives for a field (empty and \<open>0\<close> when
  absent). An entry of \<open>fieldMap\<close> \<open>fills\<close> the page when that value is not empty and
  the control exists, and it \<open>flags\<close> the page when, moreover, the badge element exists
  and the level is Medium or Low. \<open>fill_page\<close> is the page after the loop body, the two
  flags aside.
\<close>

definition value_at :: "extraction \<Rightarrow> string \<Rightarrow> string" where
  "value_at flds apiField =
     (case map_of flds apiField of
        None \<Rightarrow> []
      | Some f \<Rightarrow> (case field_value f of None \<Rightarrow> [] | Some v \<Rightarrow> v))"

definition conf_at :: "extraction \<Rightarrow> string \<Rightarrow> real" where
  "conf_at flds apiField =
     (case map_of flds apiField of None \<Rightarrow> 0 | Some f \<Rightarrow> conf_or_zero (conf f))"

definition fills :: "extraction \<Rightarrow> page \<Rightarrow> string \<times> string \<Rightarrow> bool" where
  "fills flds st = (\<lambda>(apiField, formField).
     value_at flds apiField \<noteq> [] \<and> elements st formField \<noteq> None)"

definition flags :: "extraction \<Rightarrow> page \<Rightarrow> string \<times> string \<Rightarrow> bool" where
  "flags flds st = (\<lambda>(apiField, formField).
     fills flds st (apiField, formField) \<and> elements st (formField @ ''_conf'') \<noteq> None \<and>
     (level (conf_at flds apiField) = Medium \<or> level (conf_at flds apiField) = Low))"

definition badge :: "(real \<Rightarrow> string) \<Rightarrow> real \<Rightarrow> element \<Rightarrow> element" where
  "badge pct c e =
     (case level c of
        High \<Rightarrow> e\<lparr>classList := [''field-confidence'', ''confidence-high''],
                  textContent := check_mark @ '' High confidence ('' @ pct c @ ''%)''\<rparr>
      | Medium \<Rightarrow> e\<lparr>classList := [''field-confidence'', ''confidence-medium''],
                    textContent := warning_sign @ '' Medium confidence ('' @ pct c
                                     @ ''%) - Please verify''\<rparr>
      | Low \<Rightarrow> e\<lparr>classList := [''field-confidence'', ''confidence-low''],
                 textContent := warning_sign @ '' Low confidence ('' @ pct c
                                  @ ''%) - Please verify''\<rparr>
      | Unset \<Rightarrow> e)"

definition marked :: "real \<Rightarrow> element \<Rightarrow> element" where
  "marked c e =
     (if level c = Medium \<or> level c = Low then classList_add ''low-confidence-field'' e else e)"

definition filled :: "string \<Rightarrow> element \<Rightarrow> element" where
  "filled v e = (classList_add ''animate-fill'' e)\<lparr>el_value := v\<rparr>"

definition fill_elements ::
  "(real \<Rightarrow> string) \<Rightarrow> string \<Rightarrow> string \<Rightarrow> real \<Rightarrow> (string \<rightharpoonup> element) \<Rightarrow> (string \<rightharpoonup> element)" where
  "fill_elements pct formField v c m =
     (case m formField of
        None \<Rightarrow> m
      | Some e \<Rightarrow>
          (case m (formField @ ''_conf'') of
             None \<Rightarrow> m(formField \<mapsto> filled v e)
           | Some d \<Rightarrow> m(formField \<mapsto> marked c (filled v e), formField @ ''_conf'' \<mapsto> badge pct c d)))"

definition fill_page :: "(real \<Rightarrow> string) \<Rightarrow> extraction \<Rightarrow> string \<times> string \<Rightarrow> page \<Rightarrow> page" where
  "fill_page pct flds = (\<lambda>(apiField, formField) st.
     if fills flds st (apiField, formField)
     then st\<lparr>fieldConfidences := (fieldConfidences st)(formField \<mapsto> conf_at flds apiField),
             elements := fill_elements pct formField (value_at flds apiField)
                           (conf_at flds apiField) (elements st)\<rparr>
     else st)"

definition banner :: "bool \<Rightarrow> element \<Rightarrow> element" where
  "banner attention e = (if attention then needs_attention_banner e else all_high_banner e)"

subsection \<open>Events\<close>

text \<open>
  What the user can do to the review page. An edit of a control sets its value, which is
  the browser's part, and then runs the change listener. \<open>pct\<close> is the formatting of
  percentages by the runtime.
\<close>

datatype event =
    AutoFill extraction
  | Edit string string
  | Submit fetch_result
  | Confirm fetch_result

definition user_edit :: "string \<Rightarrow> string \<Rightarrow> page \<Rightarrow> page" where
  "user_edit field_id v st =
     change_listener field_id (update_element field_id (\<lambda>e. e\<lparr>el_value := v\<rparr>) st)"

fun step :: "(real \<Rightarrow> string) \<Rightarrow> event \<Rightarrow> page \<Rightarrow> page" where
  "step pct (AutoFill flds) st = autoFillForm pct flds st"
| "step pct (Edit field_id v) st = user_edit field_id v st"
| "step pct (Submit net) st = submit_listener net st"
| "step pct (Confirm net) st = confirmSubmit_listener net st"

definition run :: "(real \<Rightarrow> string) \<Rightarrow> event list \<Rightarrow> page \<Rightarrow> page" where
  "run pct evs st = fold (step pct) evs st"

text \<open>An auto-fill that brings a non-empty value for the field \<open>apiField\<close>.\<close>

definition refills :: "string \<Rightarrow> event \<Rightarrow> bool" where
  "refills apiField ev =
     (case ev of AutoFill flds \<Rightarrow> value_at flds apiField \<noteq> [] | _ \<Rightarrow> False)"

subsection \<open>Notions for the submission\<close>

text \<open>
  The page has the submit button and the ten controls that \<open>submitForm\<close> reads. The
  template decides this; it is what lets a submission reach \<open>fetch\<close>.
\<close>

definition form_complete :: "page \<Rightarrow> bool" where
  "form_complete st \<longleftrightarrow>
     list_all (\<lambda>i. elements st i \<noteq> None)
       [''submitBtn'', ''name'', ''apaarId'', ''institutionCode'', ''organization'',
        ''internshipTitle'', ''startDate'', ''endDate'', ''hours'', ''level'', ''logs'']"

text \<open>The request that \<open>submitForm\<close> passes to \<open>fetch\<close> for the payload \<open>p\<close>.\<close>

definition post_of :: "submission \<Rightarrow> request" where
  "post_of p = \<lparr>url = submit_url, http_method = ''POST'',
               content_type = ''application/json'', body = p\<rparr>"

definition processing :: "element \<Rightarrow> element" where
  "processing e = e\<lparr>disabled := True, textContent := ''Processing...''\<rparr>"

subsection \<open>A concrete page\<close>

text \<open>
  Modelled from the spec: the HTML template of the review page is not among the sources.
  \<open>template_page\<close> is a freshly loaded page that has what the script looks up: the ten
  controls, a badge element for each of the eight scored fields, and the submit button
  with the label the script restores; the banner and the error region are hidden and
  nothing has been recorded. It is the page of the examples below.
\<close>

definition blank :: element where
  "blank = \<lparr>el_value = [], classList = [], textContent = [], innerHTML = [],
            display = [], width = [], disabled = False\<rparr>"

definition template_page :: page where
  "template_page =
     \<lparr>uploadId = ''42'',
      fieldConfidences = Map.empty,
      hasLowConfidence = False,
      elements = map_of
        [(''name'', blank), (''apaarId'', blank), (''institutionCode'', blank),
         (''organization'', blank), (''internshipTitle'', blank), (''startDate'', blank),
         (''endDate'', blank), (''hours'', blank), (''level'', blank), (''logs'', blank),
         (''name_conf'', blank), (''apaarId_conf'', blank), (''institutionCode_conf'', blank),
         (''organization_conf'', blank), (''internshipTitle_conf'', blank),
         (''startDate_conf'', blank), (''endDate_conf'', blank), (''hours_conf'', blank),
         (''submitBtn'', blank\<lparr>textContent := ''Submit for Credit Evaluation''\<rparr>)],
      confidenceIndicator = blank\<lparr>display := ''none''\<rparr>,
      errorSection = blank\<lparr>display := ''none''\<rparr>,
      modalShown = False,
      requests = [],
      location_href = None,
      unhandled = []\<rparr>"

text \<open>The extraction result \<open>{name: conf 0.9, hours: conf 0.4}\<close> of the spec's example.\<close>

definition example_fields :: extraction where
  "example_fields =
     [(''name'', \<lparr>field_value = Some ''Asha'', conf = Some 0.9\<rparr>),
      (''hours'', \<lparr>field_value = Some ''120'', conf = Some 0.4\<rparr>)]"

text \<open>
  The formatting of the percentage in the examples: \<open>(conf * 100).toFixed(0)\<close> computed on
  the reals, that is, the sign and the decimal digits of the magnitude rounded to the
  nearest integer, a half rounded up. The runtime multiplies and rounds in floating point
  and changes to exponent notation from \<open>1e21\<close>.
\<close>

definition digit :: "nat \<Rightarrow> char" where
  "digit n = char_of (48 + n)"

function decimal :: "nat \<Rightarrow> string" where
  "decimal n = (if n < 10 then [digit n] else decimal (n div 10) @ [digit (n mod 10)])"
  by pat_completeness auto
termination
  by (relation "measure id") auto

declare decimal.simps [simp del]

definition toFixed0 :: "real \<Rightarrow> string" where
  "toFixed0 x =
     (if x < 0 then ''-'' @ decimal (nat \<lfloor>- x + 1 / 2\<rfloor>) else decimal (nat \<lfloor>x + 1 / 2\<rfloor>))"

definition percent_text :: "real \<Rightarrow> string" where
  "percent_text c = toFixed0 (c * 100)"

text \<open>An extraction result whose only field has an empty value and confidence \<open>0.6\<close>.\<close>

definition blank_medium_fields :: extraction where
  "blank_medium_fields = [(''name'', \<lparr>field_value = Some [], conf = Some 0.6\<rparr>)]"

text \<open>
  The pages of the examples: the template after the auto-fill of the example result,
  then after the user has edited \<open>hours\<close>; and the template after an edit of \<open>hours\<close>,
  then of \<open>level\<close>, with the payload that is posted from it.
\<close>

definition filled_page :: page where
  "filled_page = autoFillForm percent_text example_fields template_page"

definition verified_page :: page where
  "verified_page = user_edit ''hours'' ''120'' filled_page"

definition hours_edited_page :: page where
  "hours_edited_page = user_edit ''hours'' ''120'' template_page"

definition both_edited_page :: page where
  "both_edited_page = user_edit ''level'' ''UG'' hours_edited_page"

definition both_edited_payload :: submission where
  "both_edited_payload =
     \<lparr>upload_id = ''42'', name = [], apaar_id = [], institution_code = [], organization = [],
      internship_title = [], start_date = [], end_date = [], hours = ''120'',
      level_field = ''UG'', logs = [],
      field_confidences = [(''hours'', \<lparr>entry_value = ''120'', entry_conf = 1\<rparr>)]\<rparr>"

text \<open>
  Further pages of the examples. The user types \<open>100\<close> into \<open>hours\<close> before the delayed
  auto-fill arrives; the auto-fill then brings the example result, or a result that
  gives \<open>hours\<close> without a confidence. On the last page the submit button of the template
  is labelled \<open>Send\<close>.
\<close>

definition early_edit_page :: page where
  "early_edit_page = user_edit ''hours'' ''100'' template_page"

definition refilled_page :: page where
  "refilled_page = autoFillForm percent_text example_fields early_edit_page"

definition unscored_fields :: extraction where
  "unscored_fields = [(''hours'', \<lparr>field_value = Some ''120'', conf = None\<rparr>)]"

definition unscored_page :: page where
  "unscored_page = autoFillForm percent_text unscored_fields early_edit_page"

definition send_page :: page where
  "send_page = update_element ''submitBtn'' (\<lambda>e. e\<lparr>textContent := ''Send''\<rparr>) both_edited_page"

text \<open>
  The payloads posted from \<open>verified_page\<close>, where \<open>hours\<close> was auto-filled with
  confidence \<open>0.4\<close> and then edited, and from \<open>refilled_page\<close>, where the edit came first.
\<close>

definition verified_payload :: submission where
  "verified_payload =
     \<lparr>upload_id = ''42'', name = ''Asha'', apaar_id = [], institution_code = [],
      organization = [], internship_title = [], start_date = [], end_date = [],
      hours = ''120'', level_field = [], logs = [],
      field_confidences = [(''name'', \<lparr>entry_value = ''Asha'', entry_conf = 0.9\<rparr>),
                           (''hours'', \<lparr>entry_value = ''120'', entry_conf = 1\<rparr>)]\<rparr>"

definition refilled_payload :: submission where
  "refilled_payload =
     \<lparr>upload_id = ''42'', name = ''Asha'', apaar_id = [], institution_code = [],
      organization = [], internship_title = [], start_date = [], end_date = [],
      hours = ''120'', level_field = [], logs = [],
      field_confidences = [(''name'', \<lparr>entry_value = ''Asha'', entry_conf = 0.9\<rparr>),
                           (''hours'', \<lparr>entry_value = ''120'', entry_conf = 0.4\<rparr>)]\<rparr>"

section \<open>The upload page (the second script)\<close>

text \<open>
  The text of the textarea is kept as its UTF-16 code units, because \<open>trim\<close> removes
  the white space and line terminators of ECMAScript, which lie beyond ASCII. All other
  strings of the two scripts are only compared, concatenated and stored.
\<close>

type_synonym code_units = "16 word list"

datatype upload_file = File string

datatype upload_body =
    FormData "upload_file option"
  | JsonText code_units

record upload_request =
  upload_url :: string
  upload_method :: string
  upload_content_type :: "string option"
  upload_body :: upload_body

text \<open>
  The state of the upload page. \<open>certificateFile\<close> is \<open>certificateFile.files\<close> and
  \<open>certificateText\<close> is \<open>certificateText.value\<close>; the other elements are the ones bound
  at load time. \<open>fetched\<close> are the calls of \<open>fetch\<close> in order and \<open>navigated\<close> the last
  assignment to \<open>window.location.href\<close>.
\<close>

record upload_page =
  certificateFile :: "upload_file list"
  certificateText :: code_units
  extractBtn :: element
  progressSection :: element
  progressBar :: element
  progressText :: element
  errorRegion :: element
  fetched :: "upload_request list"
  navigated :: "string option"

definition isWhiteSpace :: "16 word \<Rightarrow> bool" where
  "isWhiteSpace u \<longleftrightarrow>
     u \<in> set [0x0009, 0x000A, 0x000B, 0x000C, 0x000D, 0x0020, 0x00A0, 0x1680,
               0x2000, 0x2001, 0x2002, 0x2003, 0x2004, 0x2005, 0x2006, 0x2007,
               0x2008, 0x2009, 0x200A, 0x2028, 0x2029, 0x202F, 0x205F, 0x3000, 0xFEFF]"

definition trim :: "code_units \<Rightarrow> code_units" where
  "trim s = rev (dropWhile isWhiteSpace (rev (dropWhile isWhiteSpace s)))"

text \<open>\<open>files[0]\<close>, which is \<open>undefined\<close> for an empty list.\<close>

definition first_file :: "upload_file list \<Rightarrow> upload_file option" where
  "first_file fs = (case fs of [] \<Rightarrow> None | f # _ \<Rightarrow> Some f)"

definition showError :: "string \<Rightarrow> upload_page \<Rightarrow> upload_page" where
  "showError msg st =
     st\<lparr>errorRegion := (errorRegion st)\<lparr>display := ''block'', textContent := msg\<rparr>\<rparr>"

text \<open>\<open>updateProgress(percent, text)\<close>; \<open>percent\<close> is given as its decimal digits.\<close>

definition updateProgress :: "string \<Rightarrow> string \<Rightarrow> upload_page \<Rightarrow> upload_page" where
  "updateProgress percent txt st =
     st\<lparr>progressBar := (progressBar st)\<lparr>width := percent @ ''%'', textContent := percent @ ''%''\<rparr>,
        progressText := (progressText st)\<lparr>textContent := txt\<rparr>\<rparr>"

definition arrow :: string where
  "arrow = [CHR 0xE2, CHR 0x86, CHR 0x92]"

definition upload_endpoint :: string where
  "upload_endpoint = ''https://freelance-backend-y0el.onrender.com/api/upload_certificate''"

text \<open>
  The \<open>try\<close> block of the click listener, entered with \<open>hasFile\<close>: the state when the
  block is left and the error thrown, if any. The waits between the stages are not
  modelled.
\<close>

definition try_extract :: "bool \<Rightarrow> fetch_result \<Rightarrow> upload_page \<Rightarrow> upload_page \<times> js_error option" where
  "try_extract hasFile net st =
     (let st1 = updateProgress ''25'' (''Received '' @ arrow @ '' Processing...'') st;
          st2 = updateProgress ''50'' (''OCR '' @ arrow @ '' Extracting text...'') st1;
          sent = (if hasFile
                  then \<lparr>upload_url = upload_endpoint, upload_method = ''POST'',
                        upload_content_type = None,
                        upload_body = FormData (first_file (certificateFile st2))\<rparr>
                  else \<lparr>upload_url = upload_endpoint, upload_method = ''POST'',
                        upload_content_type = Some ''application/json'',
                        upload_body = JsonText (certificateText st2)\<rparr>);
          st3 = st2\<lparr>fetched := fetched st2 @ [sent]\<rparr>
      in (case net of
            Rejected e \<Rightarrow> (st3, Some e)
          | Resolved r \<Rightarrow>
              if \<not> ok r then (st3, Some (Error ''Upload failed''))
              else
                let st4 = updateProgress ''75'' (''Extracting fields '' @ arrow @ '' Analyzing...'') st3
                in (case json r of
                      BodyThrows e \<Rightarrow> (st4, Some e)
                    | BodyData redirect_url \<Rightarrow>
                        ((updateProgress ''100'' (''Done '' @ arrow @ '' Redirecting...'') st4)
                           \<lparr>navigated := Some (case redirect_url of
                                                  None \<Rightarrow> ''undefined''
                                                | Some u \<Rightarrow> u)\<rparr>,
                         None))))"

definition catch_extract :: "js_error \<Rightarrow> upload_page \<Rightarrow> upload_page" where
  "catch_extract error st =
     (let st1 = showError (''Extraction failed: '' @ message error) st;
          st2 = st1\<lparr>progressSection := (progressSection st1)\<lparr>display := ''none''\<rparr>\<rparr>
      in st2\<lparr>extractBtn := (extractBtn st2)\<lparr>disabled := False\<rparr>\<rparr>)"

text \<open>The click listener of \<open>extractBtn\<close>.\<close>

definition extract_click :: "fetch_result \<Rightarrow> upload_page \<Rightarrow> upload_page" where
  "extract_click net st =
     (let hasFile = length (certificateFile st) > 0;
          hasText = length (trim (certificateText st)) > 0
      in if \<not> hasFile \<and> \<not> hasText
         then showError ''Please upload a file or paste certificate text'' st
         else if hasFile \<and> hasText
         then showError ''Please use either file upload or text paste, not both'' st
         else
           let st1 = st\<lparr>errorRegion := (errorRegion st)\<lparr>display := ''none''\<rparr>,
                       progressSection := (progressSection st)\<lparr>display := ''block''\<rparr>,
                       extractBtn := (extractBtn st)\<lparr>disabled := True\<rparr>\<rparr>
           in (case try_extract hasFile net st1 of
                 (st', None) \<Rightarrow> st'
               | (st', Some error) \<Rightarrow> catch_extract error st'))"

text \<open>
  Modelled from the spec: the HTML template of the upload page is not among the sources.
  \<open>upload_template\<close> is a freshly loaded upload page, with nothing chosen or pasted; it is
  the page of the examples below.
\<close>

definition upload_template :: upload_page where
  "upload_template =
     \<lparr>certificateFile = [], certificateText = [],
      extractBtn = blank, progressSection = blank\<lparr>display := ''none''\<rparr>,
      progressBar = blank, progressText = blank,
      errorRegion = blank\<lparr>display := ''none''\<rparr>,
      fetched = [], navigated = None\<rparr>"

text \<open>
  Pages and answers of the examples: a file together with the pasted text \<open>A\<close>, a file
  together with a single space, and the pasted text \<open>A\<close> alone; a success response
  carrying a redirection, and a response with status 500.
\<close>

definition upload_both :: upload_page where
  "upload_both =
     upload_template\<lparr>certificateFile := [File ''certificate.pdf''], certificateText := [0x41]\<rparr>"

definition upload_blank_text :: upload_page where
  "upload_blank_text =
     upload_template\<lparr>certificateFile := [File ''certificate.pdf''], certificateText := [0x20]\<rparr>"

definition upload_pasted :: upload_page where
  "upload_pasted = upload_template\<lparr>certificateText := [0x41]\<rparr>"

definition redirecting :: fetch_result where
  "redirecting = Resolved \<lparr>ok = True, json = BodyData (Some ''/student_form?upload_id=42'')\<rparr>"

definition server_error :: fetch_result where
  "server_error = Resolved \<lparr>ok = False, json = BodyThrows (SyntaxError ''Unexpected token'')\<rparr>"

section \<open>Properties\<close>

subsection \<open>autoFillForm in closed form\<close>

lemma conf_key_twist:
  "m(k @ ''_conf'' \<mapsto> x, k \<mapsto> y) = m(k \<mapsto> y, k @ ''_conf'' \<mapsto> x)"
  by (simp add: fun_upd_twist)

lemma fill_field_step:
  "fill_field pct flds a (st, b) =
     ((fill_page pct flds a st)\<lparr>hasLowConfidence := hasLowConfidence st \<or> flags flds st a\<rparr>,
      b \<and> \<not> flags flds st a)"
  apply (cases a)
  apply (simp add: fill_field_def fill_page_def fills_def flags_def fill_elements_def Let_def
      value_at_def conf_at_def
      show_confidence_def update_element_def badge_def marked_def filled_def conf_key_twist
      map_upd_triv
      split: option.splits confidence_level.splits)
  done

lemma classList_add_member [simp]: "c \<in> set (classList (classList_add c e))"
  by (simp add: classList_add_def)

lemma classList_add_keeps: "d \<in> set (classList e) \<Longrightarrow> d \<in> set (classList (classList_add c e))"
  by (simp add: classList_add_def)

lemma classList_add_fix: "c \<in> set (classList e) \<Longrightarrow> classList_add c e = e"
  by (simp add: classList_add_def)

lemma el_value_classList_add [simp]: "el_value (classList_add c e) = el_value e"
  by (simp add: classList_add_def)

lemma filled_props [simp]:
  "''animate-fill'' \<in> set (classList (filled v e))" "el_value (filled v e) = v"
  by (simp_all add: filled_def)

lemma filled_fix:
  "''animate-fill'' \<in> set (classList e) \<Longrightarrow> el_value e = v \<Longrightarrow> filled v e = e"
  by (simp add: filled_def classList_add_fix)

lemma marked_props [simp]:
  "''animate-fill'' \<in> set (classList e) \<Longrightarrow> ''animate-fill'' \<in> set (classList (marked c e))"
  "el_value (marked c e) = el_value e"
  by (simp_all add: marked_def classList_add_keeps)

lemma marked_idem [simp]: "marked c (marked c e) = marked c e"
  by (simp add: marked_def classList_add_fix)

lemma refill_marked [simp]: "filled v (marked c (filled v e)) = marked c (filled v e)"
  by (rule filled_fix) simp_all

lemma refill_filled [simp]: "filled v (filled v e) = filled v e"
  by (rule filled_fix) simp_all

lemma badge_idem [simp]: "badge pct c (badge pct c e) = badge pct c e"
  by (simp add: badge_def split: confidence_level.splits)

lemma conf_key_neq [simp]: "k \<noteq> k @ ''_conf''" "k @ ''_conf'' \<noteq> k"
  by simp_all

lemma fill_elements_presence [simp]:
  "(fill_elements pct f v c m k = None) = (m k = None)"
  by (auto simp: fill_elements_def split: option.splits)

lemma fill_elements_presence' [simp]:
  "(\<exists>y. fill_elements pct f v c m k = Some y) = (\<exists>y. m k = Some y)"
  using fill_elements_presence [of pct f v c m k] by (simp only: not_None_eq [symmetric] simp_thms)

lemma fill_elements_idem:
  "fill_elements pct f v c (fill_elements pct f v c m) = fill_elements pct f v c m"
  by (auto simp: fill_elements_def map_upd_triv split: option.splits)

lemma fill_elements_commute:
  assumes "f \<noteq> g" "f \<noteq> g @ ''_conf''" "g \<noteq> f @ ''_conf''"
  shows "fill_elements pct f v c (fill_elements pct g w d m) =
         fill_elements pct g w d (fill_elements pct f v c m)"
  using assms
  by (auto simp: fill_elements_def fun_upd_twist split: option.splits)

lemma fill_page_presence [simp]:
  "(elements (fill_page pct flds a st) k = None) = (elements st k = None)"
  by (cases a) (simp add: fill_page_def)

lemma fills_presence:
  "(\<And>k. (elements s k = None) = (elements t k = None)) \<Longrightarrow> fills flds s = fills flds t"
  by (rule ext) (simp add: fills_def split: prod.splits)

lemma flags_presence:
  "(\<And>k. (elements s k = None) = (elements t k = None)) \<Longrightarrow> flags flds s = flags flds t"
  by (rule ext) (simp add: flags_def fills_presence [of s t] split: prod.splits)

lemma fill_page_other [simp]:
  "hasLowConfidence (fill_page pct flds a st) = hasLowConfidence st"
  "confidenceIndicator (fill_page pct flds a st) = confidenceIndicator st"
  "errorSection (fill_page pct flds a st) = errorSection st"
  "modalShown (fill_page pct flds a st) = modalShown st"
  "requests (fill_page pct flds a st) = requests st"
  "location_href (fill_page pct flds a st) = location_href st"
  "unhandled (fill_page pct flds a st) = unhandled st"
  "uploadId (fill_page pct flds a st) = uploadId st"
  by (cases a; simp add: fill_page_def)+

lemma fill_page_hasLowConfidence_update:
  "fill_page pct flds a (st\<lparr>hasLowConfidence := h\<rparr>) = (fill_page pct flds a st)\<lparr>hasLowConfidence := h\<rparr>"
  by (cases a) (simp add: fill_page_def fills_def)

lemma fill_page_confidenceIndicator_update:
  "fill_page pct flds a (st\<lparr>confidenceIndicator := e\<rparr>) = (fill_page pct flds a st)\<lparr>confidenceIndicator := e\<rparr>"
  by (cases a) (simp add: fill_page_def fills_def)

lemma fill_page_idem:
  "fill_page pct flds a (fill_page pct flds a st) = fill_page pct flds a st"
  by (cases a) (simp add: fill_page_def fills_def fill_elements_idem)

lemma fill_page_commute:
  assumes "snd a \<noteq> snd b" "snd a \<noteq> snd b @ ''_conf''" "snd b \<noteq> snd a @ ''_conf''"
  shows "fill_page pct flds a (fill_page pct flds b st) =
         fill_page pct flds b (fill_page pct flds a st)"
  using assms
  by (cases a; cases b)
     (simp add: fill_page_def fills_def fill_elements_commute fun_upd_twist)

lemma fieldMap_keys_distinct:
  "distinct (map snd fieldMap @ map (\<lambda>a. snd a @ ''_conf'') fieldMap)"
  by (simp add: fieldMap_def)

lemma fieldMap_independent:
  assumes "a \<in> set fieldMap" "b \<in> set fieldMap" "a \<noteq> b"
  shows "snd a \<noteq> snd b \<and> snd a \<noteq> snd b @ ''_conf'' \<and> snd b \<noteq> snd a @ ''_conf''"
proof -
  have d: "distinct (map snd fieldMap)"
    and disj: "set (map snd fieldMap) \<inter> set (map (\<lambda>a. snd a @ ''_conf'') fieldMap) = {}"
    using fieldMap_keys_distinct by (simp_all only: distinct_append)
  have "inj_on snd (set fieldMap)"
    using d by (simp add: distinct_map)
  then have "snd a \<noteq> snd b"
    using assms by (auto dest: inj_onD)
  moreover have "snd a \<noteq> snd b @ ''_conf''" "snd b \<noteq> snd a @ ''_conf''"
    using disj assms(1,2) by auto
  ultimately show ?thesis by simp
qed

lemma fill_page_commute_fieldMap:
  assumes "a \<in> set fieldMap" "b \<in> set fieldMap"
  shows "fill_page pct flds a (fill_page pct flds b st) =
         fill_page pct flds b (fill_page pct flds a st)"
proof (cases "a = b")
  case True
  then show ?thesis by simp
next
  case False
  then show ?thesis
    using fieldMap_independent [OF assms] by (intro fill_page_commute) simp_all
qed

lemma fold_commute_step:
  assumes "\<And>b y. b \<in> set xs \<Longrightarrow> f a (f b y) = f b (f a y)"
  shows "f a (fold f xs x) = fold f xs (f a x)"
  using assms by (induction xs arbitrary: x) simp_all

lemma fold_idem:
  assumes idem: "\<And>a x. a \<in> set xs \<Longrightarrow> f a (f a x) = f a x"
      and comm: "\<And>a b x. a \<in> set xs \<Longrightarrow> b \<in> set xs \<Longrightarrow> f a (f b x) = f b (f a x)"
  shows "fold f xs (fold f xs x) = fold f xs x"
  using assms
proof (induction xs arbitrary: x)
  case Nil
  then show ?case by simp
next
  case (Cons a xs)
  have "f a (fold f xs (f a x)) = fold f xs (f a (f a x))"
    by (rule fold_commute_step) (simp add: Cons.prems(2))
  also have "\<dots> = fold f xs (f a x)"
    by (simp add: Cons.prems(1))
  finally have "fold f xs (f a (fold f xs (f a x))) = fold f xs (fold f xs (f a x))"
    by simp
  also have "\<dots> = fold f xs (f a x)"
    by (rule Cons.IH) (simp_all add: Cons.prems)
  finally show ?case by simp
qed

lemma fold_fill_page_idem:
  "fold (fill_page pct flds) fieldMap (fold (fill_page pct flds) fieldMap st) =
   fold (fill_page pct flds) fieldMap st"
  by (rule fold_idem) (simp_all add: fill_page_idem fill_page_commute_fieldMap)

lemma fold_fill_page_presence [simp]:
  "(elements (fold (fill_page pct flds) xs st) k = None) = (elements st k = None)"
  by (induction xs arbitrary: st) simp_all

lemma fold_fill_page_other [simp]:
  "hasLowConfidence (fold (fill_page pct flds) xs st) = hasLowConfidence st"
  "confidenceIndicator (fold (fill_page pct flds) xs st) = confidenceIndicator st"
  "errorSection (fold (fill_page pct flds) xs st) = errorSection st"
  "modalShown (fold (fill_page pct flds) xs st) = modalShown st"
  "requests (fold (fill_page pct flds) xs st) = requests st"
  "location_href (fold (fill_page pct flds) xs st) = location_href st"
  "unhandled (fold (fill_page pct flds) xs st) = unhandled st"
  "uploadId (fold (fill_page pct flds) xs st) = uploadId st"
  by (induction xs arbitrary: st; simp)+

lemma fold_fill_page_hasLowConfidence_update:
  "fold (fill_page pct flds) xs (st\<lparr>hasLowConfidence := h\<rparr>) =
   (fold (fill_page pct flds) xs st)\<lparr>hasLowConfidence := h\<rparr>"
  by (induction xs arbitrary: st) (simp_all add: fill_page_hasLowConfidence_update)

lemma fold_fill_page_confidenceIndicator_update:
  "fold (fill_page pct flds) xs (st\<lparr>confidenceIndicator := e\<rparr>) =
   (fold (fill_page pct flds) xs st)\<lparr>confidenceIndicator := e\<rparr>"
  by (induction xs arbitrary: st) (simp_all add: fill_page_confidenceIndicator_update)

lemma flags_fill_page [simp]: "flags flds (fill_page pct flds a st) = flags flds st"
  by (rule flags_presence) simp

lemma flags_hasLowConfidence_update [simp]: "flags flds (st\<lparr>hasLowConfidence := h\<rparr>) = flags flds st"
  by (rule flags_presence) simp

lemma flags_confidenceIndicator_update [simp]: "flags flds (st\<lparr>confidenceIndicator := e\<rparr>) = flags flds st"
  by (rule flags_presence) simp

lemma flags_fold_fill_page [simp]: "flags flds (fold (fill_page pct flds) xs st) = flags flds st"
  by (rule flags_presence) simp

lemma fold_fill_field:
  "fold (fill_field pct flds) xs (st, b) =
     ((fold (fill_page pct flds) xs st)
        \<lparr>hasLowConfidence := hasLowConfidence st \<or> list_ex (flags flds st) xs\<rparr>,
      b \<and> \<not> list_ex (flags flds st) xs)"
proof (induction xs arbitrary: st b)
  case Nil
  then show ?case by simp
next
  case (Cons a xs)
  show ?case
    by (simp add: fill_field_step Cons.IH fold_fill_page_hasLowConfidence_update disj_assoc conj_assoc)
qed

lemma autoFillForm_closed:
  "autoFillForm pct flds st =
     (let st' = (fold (fill_page pct flds) fieldMap st)
                  \<lparr>hasLowConfidence := list_ex (flags flds st) fieldMap\<rparr>
      in if flds = [] then st'
         else st'\<lparr>confidenceIndicator :=
                    banner (list_ex (flags flds st) fieldMap) (confidenceIndicator st)\<rparr>)"
  by (simp add: autoFillForm_def fold_fill_field fold_fill_page_hasLowConfidence_update banner_def Let_def)

lemma banner_idem [simp]: "banner x (banner x e) = banner x e"
  by (simp add: banner_def all_high_banner_def needs_attention_banner_def)

lemma fieldConfidences_fill_page:
  "fieldConfidences (fill_page pct flds a st) k =
     (if snd a = k \<and> fills flds st a then Some (conf_at flds (fst a)) else fieldConfidences st k)"
  by (cases a) (simp add: fill_page_def)

lemma fills_fill_page [simp]: "fills flds (fill_page pct flds a st) = fills flds st"
  by (rule fills_presence) simp

lemma fieldConfidences_fold_fill_page:
  assumes "\<And>a. a \<in> set xs \<Longrightarrow> snd a = k \<Longrightarrow> value_at flds (fst a) = []"
  shows "fieldConfidences (fold (fill_page pct flds) xs st) k = fieldConfidences st k"
  using assms
proof (induction xs arbitrary: st)
  case Nil
  then show ?case by simp
next
  case (Cons a xs)
  have "\<not> (snd a = k \<and> fills flds st a)"
    using Cons.prems [of a] by (cases a) (auto simp: fills_def)
  then have "fieldConfidences (fill_page pct flds a st) k = fieldConfidences st k"
    by (auto simp: fieldConfidences_fill_page)
  then show ?case
    using Cons by simp
qed

lemma fieldMap_form_unique:
  assumes "(apiField, formField) \<in> set fieldMap" "a \<in> set fieldMap" "snd a = formField"
  shows "fst a = apiField"
proof -
  have "inj_on snd (set fieldMap)"
    using fieldMap_keys_distinct by (simp add: distinct_map)
  then have "a = (apiField, formField)"
    using assms by (intro inj_onD [of snd "set fieldMap"]) simp_all
  then show ?thesis by simp
qed

lemma fieldConfidences_fold_fill_page_at:
  assumes "distinct (map snd xs)" "a \<in> set xs"
  shows "fieldConfidences (fold (fill_page pct flds) xs st) (snd a) =
           (if fills flds st a then Some (conf_at flds (fst a)) else fieldConfidences st (snd a))"
  using assms
proof (induction xs arbitrary: st)
  case Nil
  then show ?case by simp
next
  case (Cons b ys)
  show ?case
  proof (cases "a = b")
    case True
    have fresh: "snd a \<notin> snd ` set ys"
      using Cons.prems(1) True by simp
    have "fieldConfidences (fold (fill_page pct flds) ys (fill_page pct flds a st)) (snd a) =
            fieldConfidences (fill_page pct flds a st) (snd a)"
    proof (rule fieldConfidences_fold_fill_page)
      fix a'
      assume "a' \<in> set ys" "snd a' = snd a"
      then have False using fresh by (metis imageI)
      then show "value_at flds (fst a') = []" ..
    qed
    then show ?thesis
      using True by (simp add: fieldConfidences_fill_page)
  next
    case False
    then have a: "a \<in> set ys" and d: "distinct (map snd ys)" and ne: "snd b \<noteq> snd a"
      using Cons.prems by auto
    show ?thesis
      using Cons.IH [OF d a, of "fill_page pct flds b st"] ne
      by (simp add: fieldConfidences_fill_page)
  qed
qed

lemma fieldMap_distinct_form: "distinct (map snd fieldMap)"
  using fieldMap_keys_distinct by simp

lemma fieldConfidences_autoFillForm:
  assumes "(apiField, formField) \<in> set fieldMap" "value_at flds apiField = []"
  shows "fieldConfidences (autoFillForm pct flds st) formField = fieldConfidences st formField"
proof -
  have "fieldConfidences (fold (fill_page pct flds) fieldMap st) formField =
          fieldConfidences st formField"
    using assms by (intro fieldConfidences_fold_fill_page) (simp add: fieldMap_form_unique)
  then show ?thesis
    by (auto simp: autoFillForm_closed Let_def)
qed

lemma fieldConfidences_autoFillForm_at:
  assumes "a \<in> set fieldMap"
  shows "fieldConfidences (autoFillForm pct flds st) (snd a) =
           (if fills flds st a then Some (conf_at flds (fst a)) else fieldConfidences st (snd a))"
  using fieldConfidences_fold_fill_page_at [OF fieldMap_distinct_form assms, of pct flds st]
  by (auto simp: autoFillForm_closed Let_def)

lemma presence_autoFillForm [simp]:
  "(elements (autoFillForm pct flds st) k = None) = (elements st k = None)"
  by (simp add: autoFillForm_closed Let_def)

subsection \<open>The change listener and the submission\<close>

lemma update_element_fields [simp]:
  "fieldConfidences (update_element i f st) = fieldConfidences st"
  "hasLowConfidence (update_element i f st) = hasLowConfidence st"
  "confidenceIndicator (update_element i f st) = confidenceIndicator st"
  "errorSection (update_element i f st) = errorSection st"
  "modalShown (update_element i f st) = modalShown st"
  "requests (update_element i f st) = requests st"
  "location_href (update_element i f st) = location_href st"
  "unhandled (update_element i f st) = unhandled st"
  "uploadId (update_element i f st) = uploadId st"
  by (simp_all add: update_element_def split: option.splits)

lemma elements_update_element:
  "elements (update_element i f st) k =
     (if k = i then map_option f (elements st i) else elements st k)"
  by (simp add: update_element_def split: option.splits)

lemma change_listener_fields [simp]:
  "hasLowConfidence (change_listener i st) = hasLowConfidence st"
  "confidenceIndicator (change_listener i st) = confidenceIndicator st"
  "errorSection (change_listener i st) = errorSection st"
  "modalShown (change_listener i st) = modalShown st"
  "requests (change_listener i st) = requests st"
  "location_href (change_listener i st) = location_href st"
  "unhandled (change_listener i st) = unhandled st"
  "uploadId (change_listener i st) = uploadId st"
  by (simp_all add: change_listener_def Let_def split: option.splits)

lemma fieldConfidences_change_listener:
  "fieldConfidences (change_listener i st) =
     (if elements st i = None then fieldConfidences st else (fieldConfidences st)(i \<mapsto> 1))"
  by (simp add: change_listener_def Let_def split: option.splits)

lemma elements_change_listener:
  "elements (change_listener i st) k =
     (if elements st i = None then elements st k
      else if k = i @ ''_conf''
      then map_option (\<lambda>e. e\<lparr>classList := [''field-confidence'', ''confidence-high''],
                                textContent := check_mark @ '' Verified by student''\<rparr>)
             (elements st k)
      else if k = i
      then map_option (\<lambda>e. classList_add ''field-verified''
                                (classList_remove ''low-confidence-field'' e)) (elements st k)
      else elements st k)"
  by (auto simp: change_listener_def Let_def elements_update_element split: option.splits)

lemma el_value_classList_remove [simp]: "el_value (classList_remove c e) = el_value e"
  by (simp add: classList_remove_def)

lemma fieldConfidences_user_edit:
  "fieldConfidences (user_edit i v st) =
     (if elements st i = None then fieldConfidences st else (fieldConfidences st)(i \<mapsto> 1))"
  by (simp add: user_edit_def fieldConfidences_change_listener elements_update_element)

lemma presence_user_edit [simp]:
  "(elements (user_edit i v st) k = None) = (elements st k = None)"
  by (simp add: user_edit_def elements_change_listener elements_update_element)

lemma value_of_Inr: "value_of st i = Inr v \<longleftrightarrow> (\<exists>e. elements st i = Some e \<and> v = el_value e)"
  by (auto simp: value_of_def split: option.splits)

lemma and_then_Inr: "and_then r k = Inr y \<longleftrightarrow> (\<exists>x. r = Inr x \<and> k x = Inr y)"
  by (cases r) (simp_all add: and_then_def)

lemma buildConfidenceLoop_map_of:
  assumes "buildConfidenceLoop st ms acc = Inr r" "distinct (map fst ms)"
  shows "map_of r k =
           (case map_of ms k of
              None \<Rightarrow> map_of acc k
            | Some formField \<Rightarrow>
                (case fieldConfidences st formField of
                   None \<Rightarrow> map_of acc k
                 | Some c \<Rightarrow>
                     map_option (\<lambda>e. \<lparr>entry_value = el_value e, entry_conf = c\<rparr>)
                       (elements st formField)))"
  using assms
proof (induction ms arbitrary: acc)
  case Nil
  then show ?case by simp
next
  case (Cons a ms)
  obtain apiField formField where a: "a = (apiField, formField)" by (cases a)
  have fresh: "map_of ms apiField = None"
    using Cons.prems(2) a by (simp add: map_of_eq_None_iff)
  have d: "distinct (map fst ms)" using Cons.prems(2) by simp
  show ?case
  proof (cases "fieldConfidences st formField")
    case None
    then have "buildConfidenceLoop st ms acc = Inr r"
      using Cons.prems(1) a by simp
    from Cons.IH [OF this d] show ?thesis
      using None a fresh by (simp split: option.splits)
  next
    case (Some c)
    then obtain v where v: "value_of st formField = Inr v"
      and rest: "buildConfidenceLoop st ms
                   (AList.update apiField \<lparr>entry_value = v, entry_conf = c\<rparr> acc) = Inr r"
      using Cons.prems(1) a by (auto simp: and_then_Inr)
    obtain e where e: "elements st formField = Some e" "v = el_value e"
      using v by (auto simp: value_of_Inr)
    from Cons.IH [OF rest d] show ?thesis
      using Some a fresh e by (simp add: update_conv' split: option.splits)
  qed
qed

lemma buildConfidenceLoop_total:
  assumes "\<And>a. a \<in> set ms \<Longrightarrow> fieldConfidences st (snd a) \<noteq> None \<Longrightarrow> elements st (snd a) \<noteq> None"
  shows "\<exists>r. buildConfidenceLoop st ms acc = Inr r"
  using assms
proof (induction ms arbitrary: acc)
  case Nil
  then show ?case by simp
next
  case (Cons a ms)
  obtain apiField formField where a: "a = (apiField, formField)" by (cases a)
  show ?case
  proof (cases "fieldConfidences st formField")
    case None
    then show ?thesis using Cons a by simp
  next
    case (Some c)
    then obtain e where "elements st formField = Some e"
      using Cons.prems [of a] a by auto
    then show ?thesis
      using Some a Cons.IH Cons.prems by (simp add: and_then_def value_of_def)
  qed
qed

lemma buildConfidenceLoop_cong:
  assumes "fieldConfidences s = fieldConfidences t"
      and "\<And>a. a \<in> set ms \<Longrightarrow> elements s (snd a) = elements t (snd a)"
  shows "buildConfidenceLoop s ms acc = buildConfidenceLoop t ms acc"
  using assms
proof (induction ms arbitrary: acc)
  case Nil
  then show ?case by simp
next
  case (Cons a ms)
  obtain apiField formField where a: "a = (apiField, formField)" by (cases a)
  have "elements s formField = elements t formField"
    using Cons.prems(2) [of a] a by simp
  then have "value_of s formField = value_of t formField"
    by (simp add: value_of_def)
  then show ?case
    using Cons a by (simp split: option.splits)
qed

lemma fieldMap_distinct_api: "distinct (map fst fieldMap)"
  by (simp add: fieldMap_def)

lemma fieldMap_api_names:
  "fst ` set fieldMap =
     {''name'', ''apaar_id'', ''institution_code'', ''organization'', ''internship_title'',
      ''start_date'', ''end_date'', ''hours''}"
  by (simp add: fieldMap_def)

lemma submitBtn_not_form: "a \<in> set fieldMap \<Longrightarrow> snd a \<noteq> ''submitBtn''"
  by (auto simp: fieldMap_def)

lemma buildConfidenceObject_map_of:
  assumes "buildConfidenceObject st = Inr r"
  shows "map_of r k =
           (case map_of fieldMap k of
              None \<Rightarrow> None
            | Some formField \<Rightarrow>
                (case fieldConfidences st formField of
                   None \<Rightarrow> None
                 | Some c \<Rightarrow>
                     map_option (\<lambda>e. \<lparr>entry_value = el_value e, entry_conf = c\<rparr>)
                       (elements st formField)))"
  using buildConfidenceLoop_map_of [OF assms [unfolded buildConfidenceObject_def] fieldMap_distinct_api, of k]
  by (simp split: option.splits)

lemma buildConfidenceObject_submitBtn:
  "buildConfidenceObject (update_element ''submitBtn'' f st) = buildConfidenceObject st"
  unfolding buildConfidenceObject_def
  by (rule buildConfidenceLoop_cong) (simp_all add: elements_update_element submitBtn_not_form)

lemma processing_lambda:
  "(\<lambda>e. e\<lparr>disabled := True, textContent := ''Processing...''\<rparr>) = processing"
  by (rule ext) (simp add: processing_def)

lemma catch_submit_fields [simp]:
  "requests (catch_submit e st) = requests st"
  "location_href (catch_submit e st) = location_href st"
  "fieldConfidences (catch_submit e st) = fieldConfidences st"
  "hasLowConfidence (catch_submit e st) = hasLowConfidence st"
  "modalShown (catch_submit e st) = modalShown st"
  "confidenceIndicator (catch_submit e st) = confidenceIndicator st"
  "errorSection (catch_submit e st) =
     (errorSection st)\<lparr>display := ''block'', textContent := ''Submission failed: '' @ message e\<rparr>"
  by (simp_all add: catch_submit_def Let_def split: option.splits)

lemma catch_submit_button:
  assumes "elements st ''submitBtn'' = Some b"
  shows "unhandled (catch_submit e st) = unhandled st"
    and "elements (catch_submit e st) ''submitBtn'' =
           Some (b\<lparr>disabled := False, textContent := ''Submit for Credit Evaluation''\<rparr>)"
  using assms by (simp_all add: catch_submit_def Let_def elements_update_element)

lemma try_submit_no_button:
  "elements st ''submitBtn'' = None \<Longrightarrow> try_submit net st = (st, Some (null_write ''disabled''))"
  by (simp add: try_submit_def)

lemma try_submit_no_data:
  assumes "elements st ''submitBtn'' = Some b"
      and "collect_form_data (update_element ''submitBtn'' processing st) = Inl e"
  shows "try_submit net st = (update_element ''submitBtn'' processing st, Some e)"
  using assms by (simp add: try_submit_def Let_def processing_lambda)

lemma try_submit_sent:
  assumes "elements st ''submitBtn'' = Some b"
      and "collect_form_data (update_element ''submitBtn'' processing st) = Inr p"
  shows "try_submit net st =
           (let st2 = (update_element ''submitBtn'' processing st)
                        \<lparr>requests := requests st @ [post_of p]\<rparr>
            in (case net of
                  Rejected e \<Rightarrow> (st2, Some e)
                | Resolved r \<Rightarrow>
                    if \<not> ok r then (st2, Some (Error ''Submission failed''))
                    else (case json r of
                            BodyThrows e \<Rightarrow> (st2, Some e)
                          | BodyData redirect_url \<Rightarrow>
                              (st2\<lparr>location_href :=
                                     Some (case redirect_url of None \<Rightarrow> ''undefined'' | Some u \<Rightarrow> u)\<rparr>,
                               None))))"
  using assms by (simp add: try_submit_def Let_def processing_lambda post_of_def)

lemma requests_submitForm:
  "requests (submitForm net st) =
     (case elements st ''submitBtn'' of
        None \<Rightarrow> requests st
      | Some b \<Rightarrow>
          (case collect_form_data (update_element ''submitBtn'' processing st) of
             Inl e \<Rightarrow> requests st
           | Inr p \<Rightarrow> requests st @ [post_of p]))"
proof (cases "elements st ''submitBtn''")
  case None
  then show ?thesis by (simp add: submitForm_def try_submit_no_button)
next
  case (Some b)
  show ?thesis
  proof (cases "collect_form_data (update_element ''submitBtn'' processing st)")
    case (Inl e)
    then show ?thesis using Some by (simp add: submitForm_def try_submit_no_data [OF Some Inl])
  next
    case (Inr p)
    show ?thesis
      using Some Inr
      by (simp add: submitForm_def try_submit_sent [OF Some Inr] Let_def
          split: fetch_result.splits json_result.splits)
  qed
qed

lemma submitForm_posted:
  assumes "requests (submitForm net st) \<noteq> requests st"
  obtains b p where "elements st ''submitBtn'' = Some b"
    and "collect_form_data (update_element ''submitBtn'' processing st) = Inr p"
    and "requests (submitForm net st) = requests st @ [post_of p]"
  using assms unfolding requests_submitForm
  by (auto split: option.splits sum.splits)

lemma collect_form_data_confidences:
  "collect_form_data st = Inr p \<Longrightarrow> buildConfidenceObject st = Inr (field_confidences p)"
  by (auto simp: collect_form_data_def and_then_Inr)

lemma posted_confidences:
  assumes "requests (submitForm net st) = requests st @ [q]"
  shows "buildConfidenceObject st = Inr (field_confidences (body q))"
proof -
  have "requests (submitForm net st) \<noteq> requests st" using assms by simp
  then obtain b p where p: "collect_form_data (update_element ''submitBtn'' processing st) = Inr p"
    and "requests (submitForm net st) = requests st @ [post_of p]"
    by (rule submitForm_posted)
  then have "q = post_of p" using assms by simp
  then have "body q = p" by (simp add: post_of_def)
  then show ?thesis
    using collect_form_data_confidences [OF p] by (simp add: buildConfidenceObject_submitBtn)
qed

lemma form_complete_controls:
  assumes "form_complete st"
  shows "elements st ''submitBtn'' \<noteq> None" "elements st ''name'' \<noteq> None"
    "elements st ''apaarId'' \<noteq> None" "elements st ''institutionCode'' \<noteq> None"
    "elements st ''organization'' \<noteq> None" "elements st ''internshipTitle'' \<noteq> None"
    "elements st ''startDate'' \<noteq> None" "elements st ''endDate'' \<noteq> None"
    "elements st ''hours'' \<noteq> None" "elements st ''level'' \<noteq> None" "elements st ''logs'' \<noteq> None"
  using assms by (simp_all add: form_complete_def)

lemma form_complete_fieldMap:
  "form_complete st \<Longrightarrow> a \<in> set fieldMap \<Longrightarrow> elements st (snd a) \<noteq> None"
  by (auto simp: form_complete_def fieldMap_def)

lemma value_of_present:
  "elements st i \<noteq> None \<Longrightarrow> value_of st i = Inr (el_value (the (elements st i)))"
  by (auto simp: value_of_def)

lemma collect_form_data_total:
  assumes "form_complete st"
  shows "\<exists>p. collect_form_data st = Inr p"
proof -
  note c = form_complete_controls [OF assms]
  obtain fc where "buildConfidenceObject st = Inr fc"
    unfolding buildConfidenceObject_def
    using buildConfidenceLoop_total [of fieldMap st "[]"] form_complete_fieldMap [OF assms]
    by blast
  then show ?thesis
    by (simp add: collect_form_data_def and_then_def value_of_present c)
qed

lemma presence_update_element [simp]:
  "(elements (update_element i f st) k = None) = (elements st k = None)"
  by (simp add: elements_update_element)

lemma form_complete_update_element [simp]:
  "form_complete (update_element i f st) = form_complete st"
  by (simp add: form_complete_def)

lemma submitForm_posts:
  assumes "form_complete st"
  shows "\<exists>q. requests (submitForm net st) = requests st @ [q]"
proof -
  obtain b where "elements st ''submitBtn'' = Some b"
    using form_complete_controls(1) [OF assms] by auto
  moreover obtain p where "collect_form_data (update_element ''submitBtn'' processing st) = Inr p"
    using collect_form_data_total [of "update_element ''submitBtn'' processing st"] assms by auto
  ultimately show ?thesis
    by (simp add: requests_submitForm)
qed

lemma try_submit_keeps:
  "fieldConfidences (fst (try_submit net st)) = fieldConfidences st"
  "hasLowConfidence (fst (try_submit net st)) = hasLowConfidence st"
  "(elements (fst (try_submit net st)) k = None) = (elements st k = None)"
  by (simp_all add: try_submit_def Let_def
      split: option.splits sum.splits fetch_result.splits json_result.splits)

lemma presence_catch_submit [simp]:
  "(elements (catch_submit e st) k = None) = (elements st k = None)"
  by (simp add: catch_submit_def Let_def split: option.splits)

lemma submitForm_keeps:
  "fieldConfidences (submitForm net st) = fieldConfidences st"
  "hasLowConfidence (submitForm net st) = hasLowConfidence st"
  "(elements (submitForm net st) k = None) = (elements st k = None)"
proof -
  obtain s' r where t: "try_submit net st = (s', r)"
    by (cases "try_submit net st")
  have s': "fieldConfidences s' = fieldConfidences st" "hasLowConfidence s' = hasLowConfidence st"
    "(elements s' k = None) = (elements st k = None)"
    using try_submit_keeps [of net st] t by simp_all
  show "fieldConfidences (submitForm net st) = fieldConfidences st"
    "hasLowConfidence (submitForm net st) = hasLowConfidence st"
    "(elements (submitForm net st) k = None) = (elements st k = None)"
    using s' t by (cases r; simp add: submitForm_def)+
qed

lemma step_keeps_presence [simp]:
  "(elements (step pct ev st) k = None) = (elements st k = None)"
  by (cases ev) (simp_all add: submit_listener_def confirmSubmit_listener_def submitForm_keeps)

lemma step_keeps_verified:
  assumes "(apiField, formField) \<in> set fieldMap" "\<not> refills apiField ev"
      and "fieldConfidences st formField = Some 1"
  shows "fieldConfidences (step pct ev st) formField = Some 1"
proof (cases ev)
  case (AutoFill flds)
  then show ?thesis
    using assms by (simp add: refills_def fieldConfidences_autoFillForm)
next
  case (Edit i w)
  then show ?thesis
    using assms(3) by (simp add: fieldConfidences_user_edit)
next
  case (Submit net)
  then show ?thesis
    using assms(3) by (simp add: submit_listener_def submitForm_keeps)
next
  case (Confirm net)
  then show ?thesis
    using assms(3) by (simp add: confirmSubmit_listener_def submitForm_keeps)
qed

lemma run_keeps_verified:
  assumes "(apiField, formField) \<in> set fieldMap" "\<forall>ev\<in>set evs. \<not> refills apiField ev"
      and "fieldConfidences st formField = Some 1"
  shows "fieldConfidences (run pct evs st) formField = Some 1"
  using assms(2,3) unfolding run_def
  by (induction evs arbitrary: st) (simp_all add: step_keeps_verified [OF assms(1)])

lemma run_keeps_presence [simp]:
  "(elements (run pct evs st) k = None) = (elements st k = None)"
  unfolding run_def by (induction evs arbitrary: st) simp_all

lemma map_of_fieldMap:
  "(apiField, formField) \<in> set fieldMap \<Longrightarrow> map_of fieldMap apiField = Some formField"
  using fieldMap_distinct_api by simp

lemma value_of_submitBtn:
  "i \<noteq> ''submitBtn'' \<Longrightarrow> value_of (update_element ''submitBtn'' f st) i = value_of st i"
  by (simp add: value_of_def elements_update_element)

lemma collect_form_data_submitBtn:
  "collect_form_data (update_element ''submitBtn'' f st) = collect_form_data st"
  by (simp add: collect_form_data_def value_of_submitBtn buildConfidenceObject_submitBtn)

lemma requests_submitForm_complete:
  assumes "elements st ''submitBtn'' \<noteq> None" "collect_form_data st = Inr p"
  shows "requests (submitForm net st) = requests st @ [post_of p]"
  using assms by (auto simp: requests_submitForm collect_form_data_submitBtn)

lemma user_edit_fields [simp]:
  "hasLowConfidence (user_edit i v st) = hasLowConfidence st"
  "confidenceIndicator (user_edit i v st) = confidenceIndicator st"
  "errorSection (user_edit i v st) = errorSection st"
  "modalShown (user_edit i v st) = modalShown st"
  "requests (user_edit i v st) = requests st"
  "location_href (user_edit i v st) = location_href st"
  "unhandled (user_edit i v st) = unhandled st"
  "uploadId (user_edit i v st) = uploadId st"
  by (simp_all add: user_edit_def)

subsection \<open>Single elements after autoFillForm, and failed submissions\<close>

lemma elements_fill_page_other:
  "k \<noteq> snd a \<Longrightarrow> k \<noteq> snd a @ ''_conf'' \<Longrightarrow> elements (fill_page pct flds a st) k = elements st k"
  by (cases a) (simp add: fill_page_def fill_elements_def split: option.splits)

lemma elements_fold_fill_page_other:
  assumes "\<And>b. b \<in> set xs \<Longrightarrow> k \<noteq> snd b \<and> k \<noteq> snd b @ ''_conf''"
  shows "elements (fold (fill_page pct flds) xs st) k = elements st k"
  using assms
  by (induction xs arbitrary: st) (simp_all add: elements_fill_page_other)

lemma elements_fold_fill_page_at:
  assumes indep: "\<And>b c. b \<in> set xs \<Longrightarrow> c \<in> set xs \<Longrightarrow> b \<noteq> c \<Longrightarrow>
                    snd b \<noteq> snd c \<and> snd b \<noteq> snd c @ ''_conf'' \<and> snd c \<noteq> snd b @ ''_conf''"
      and "distinct xs" "a \<in> set xs" "k = snd a \<or> k = snd a @ ''_conf''"
  shows "elements (fold (fill_page pct flds) xs st) k = elements (fill_page pct flds a st) k"
  using assms
proof (induction xs arbitrary: st)
  case Nil
  then show ?case by simp
next
  case (Cons b ys)
  show ?case
  proof (cases "a = b")
    case True
    have "elements (fold (fill_page pct flds) ys (fill_page pct flds a st)) k =
            elements (fill_page pct flds a st) k"
    proof (rule elements_fold_fill_page_other)
      fix c
      assume c: "c \<in> set ys"
      then have "c \<noteq> a" using Cons.prems(2) True by auto
      then show "k \<noteq> snd c \<and> k \<noteq> snd c @ ''_conf''"
        using Cons.prems(1) [of a c] Cons.prems(1) [of c a] c True Cons.prems(4) by auto
    qed
    then show ?thesis using True by simp
  next
    case False
    then have a: "a \<in> set ys" and d: "distinct ys"
      using Cons.prems by auto
    have ib: "snd a \<noteq> snd b \<and> snd a \<noteq> snd b @ ''_conf'' \<and> snd b \<noteq> snd a @ ''_conf''"
      using Cons.prems(1) [of a b] Cons.prems(3) False by simp
    have "elements (fold (fill_page pct flds) ys (fill_page pct flds b st)) k =
            elements (fill_page pct flds a (fill_page pct flds b st)) k"
      using Cons.prems(1) by (intro Cons.IH [OF _ d a Cons.prems(4)]) simp
    also have "fill_page pct flds a (fill_page pct flds b st) =
                 fill_page pct flds b (fill_page pct flds a st)"
      using ib by (intro fill_page_commute) simp_all
    also have "elements (fill_page pct flds b (fill_page pct flds a st)) k =
                 elements (fill_page pct flds a st) k"
      using ib Cons.prems(4) by (intro elements_fill_page_other) auto
    finally show ?thesis by simp
  qed
qed

lemma fieldMap_distinct: "distinct fieldMap"
  using fieldMap_distinct_form by (simp add: distinct_map)

lemma elements_autoFillForm:
  "elements (autoFillForm pct flds st) = elements (fold (fill_page pct flds) fieldMap st)"
  by (simp add: autoFillForm_closed Let_def)

lemma elements_autoFillForm_at:
  assumes "a \<in> set fieldMap" "k = snd a \<or> k = snd a @ ''_conf''"
  shows "elements (autoFillForm pct flds st) k = elements (fill_page pct flds a st) k"
  unfolding elements_autoFillForm
  using fieldMap_independent fieldMap_distinct assms
  by (rule elements_fold_fill_page_at)

lemma elements_autoFillForm_other:
  assumes "\<And>b. b \<in> set fieldMap \<Longrightarrow> k \<noteq> snd b \<and> k \<noteq> snd b @ ''_conf''"
  shows "elements (autoFillForm pct flds st) k = elements st k"
  unfolding elements_autoFillForm using assms by (rule elements_fold_fill_page_other)

lemma badge_fill_page:
  "elements (fill_page pct flds (apiField, formField) st) (formField @ ''_conf'') =
     (if fills flds st (apiField, formField)
      then map_option (badge pct (conf_at flds apiField)) (elements st (formField @ ''_conf''))
      else elements st (formField @ ''_conf''))"
  by (auto simp: fill_page_def fills_def fill_elements_def split: option.splits)

lemma control_fill_page:
  "elements (fill_page pct flds (apiField, formField) st) formField =
     (if fills flds st (apiField, formField)
      then map_option (\<lambda>e. if elements st (formField @ ''_conf'') = None
                             then filled (value_at flds apiField) e
                             else marked (conf_at flds apiField) (filled (value_at flds apiField) e))
             (elements st formField)
      else elements st formField)"
  by (auto simp: fill_page_def fills_def fill_elements_def split: option.splits)

lemma value_of_autoFillForm_at:
  assumes "a \<in> set fieldMap"
  shows "value_of (autoFillForm pct flds st) (snd a) =
           (if fills flds st a then Inr (value_at flds (fst a)) else value_of st (snd a))"
proof -
  obtain apiField formField where a: "a = (apiField, formField)" by (cases a)
  have "elements (autoFillForm pct flds st) formField =
          elements (fill_page pct flds (apiField, formField) st) formField"
    using elements_autoFillForm_at [of a formField pct flds st] assms a by simp
  then show ?thesis
    using a by (auto simp: value_of_def control_fill_page fills_def split: option.splits)
qed

lemma value_of_autoFillForm_other:
  assumes "\<And>b. b \<in> set fieldMap \<Longrightarrow> k \<noteq> snd b \<and> k \<noteq> snd b @ ''_conf''"
  shows "value_of (autoFillForm pct flds st) k = value_of st k"
  using elements_autoFillForm_other [OF assms, of pct flds st]
  by (simp add: value_of_def)

lemma value_of_user_edit:
  "value_of (user_edit i v st) k =
     (if k = i \<and> elements st i \<noteq> None then Inr v else value_of st k)"
  by (auto simp: value_of_def user_edit_def elements_change_listener elements_update_element
      split: option.splits)

lemma badge_autoFillForm:
  assumes "(apiField, formField) \<in> set fieldMap"
      and "map_of flds apiField = Some f" "field_value f = Some v" "v \<noteq> []"
      and "elements st formField \<noteq> None"
  shows "elements (autoFillForm pct flds st) (formField @ ''_conf'') =
           map_option (badge pct (conf_or_zero (conf f))) (elements st (formField @ ''_conf''))"
proof -
  have "fills flds st (apiField, formField)"
    using assms by (simp add: fills_def value_at_def)
  moreover have "conf_at flds apiField = conf_or_zero (conf f)"
    using assms(2) by (simp add: conf_at_def)
  ultimately show ?thesis
    using elements_autoFillForm_at [of "(apiField, formField)" "formField @ ''_conf''" pct flds st]
      assms(1)
    by (simp add: badge_fill_page)
qed

lemma autoFillForm_fields [simp]:
  "uploadId (autoFillForm pct flds st) = uploadId st"
  "requests (autoFillForm pct flds st) = requests st"
  "location_href (autoFillForm pct flds st) = location_href st"
  "unhandled (autoFillForm pct flds st) = unhandled st"
  "modalShown (autoFillForm pct flds st) = modalShown st"
  "errorSection (autoFillForm pct flds st) = errorSection st"
  by (simp_all add: autoFillForm_closed Let_def)

lemma submitForm_failed:
  assumes posted: "requests (submitForm net st) \<noteq> requests st"
      and failed: "net = Rejected e \<or> (\<exists>r. net = Resolved r \<and> \<not> ok r \<and> e = Error ''Submission failed'')"
  obtains b p where "elements st ''submitBtn'' = Some b"
    and "requests (submitForm net st) = requests st @ [post_of p]"
    and "elements (submitForm net st) ''submitBtn'' =
           Some (b\<lparr>disabled := False, textContent := ''Submit for Credit Evaluation''\<rparr>)"
    and "errorSection (submitForm net st) =
           (errorSection st)\<lparr>display := ''block'',
                             textContent := ''Submission failed: '' @ message e\<rparr>"
    and "location_href (submitForm net st) = location_href st"
    and "unhandled (submitForm net st) = unhandled st"
proof -
  obtain b p where b: "elements st ''submitBtn'' = Some b"
    and p: "collect_form_data (update_element ''submitBtn'' processing st) = Inr p"
    and sent: "requests (submitForm net st) = requests st @ [post_of p]"
    using posted by (rule submitForm_posted)
  let ?st2 = "(update_element ''submitBtn'' processing st)\<lparr>requests := requests st @ [post_of p]\<rparr>"
  have thrown: "try_submit net st = (?st2, Some e)"
    using failed by (auto simp: try_submit_sent [OF b p] Let_def)
  have result: "submitForm net st = catch_submit e ?st2"
    by (simp add: submitForm_def thrown)
  have pressed: "elements ?st2 ''submitBtn'' = Some (processing b)"
    using b by (simp add: elements_update_element)
  have button: "elements (submitForm net st) ''submitBtn'' =
                  Some (b\<lparr>disabled := False, textContent := ''Submit for Credit Evaluation''\<rparr>)"
    unfolding result catch_submit_button(2) [OF pressed] by (simp add: processing_def)
  have quiet: "unhandled (submitForm net st) = unhandled st"
    unfolding result catch_submit_button(1) [OF pressed] by simp
  have region: "errorSection (submitForm net st) =
                  (errorSection st)\<lparr>display := ''block'',
                                    textContent := ''Submission failed: '' @ message e\<rparr>"
    unfolding result by simp
  have stay: "location_href (submitForm net st) = location_href st"
    unfolding result by simp
  show ?thesis
    using that [OF b sent button region stay quiet] .
qed

lemma verified_stays_posted:
  assumes scored: "(apiField, formField) \<in> set fieldMap"
      and control: "elements st formField \<noteq> None"
      and later: "\<forall>ev\<in>set evs. \<not> refills apiField ev"
      and sent: "requests (submitForm net (run pct evs (user_edit formField v st))) =
                   requests (run pct evs (user_edit formField v st)) @ [q]"
  shows "\<exists>e. map_of (field_confidences (body q)) apiField = Some e \<and> entry_conf e = 1 \<and>
              map_option el_value (elements (run pct evs (user_edit formField v st)) formField) =
                Some (entry_value e)"
proof -
  let ?s = "run pct evs (user_edit formField v st)"
  have first: "fieldConfidences (user_edit formField v st) formField = Some 1"
    using control by (auto simp: fieldConfidences_user_edit)
  have now: "fieldConfidences ?s formField = Some 1"
    using scored later first by (rule run_keeps_verified)
  obtain c where c: "elements ?s formField = Some c"
    using control by (cases "elements ?s formField") simp_all
  have "buildConfidenceObject ?s = Inr (field_confidences (body q))"
    using sent by (rule posted_confidences)
  then have "map_of (field_confidences (body q)) apiField =
               Some \<lparr>entry_value = el_value c, entry_conf = 1\<rparr>"
    using now c by (simp add: buildConfidenceObject_map_of map_of_fieldMap [OF scored])
  then show ?thesis
    using c by simp
qed

lemma passthrough_not_posted:
  assumes "f \<in> {''level'', ''logs''}" "requests (submitForm net st) = requests st @ [q]"
  shows "map_of (field_confidences (body q)) f = None"
proof -
  have "f \<notin> fst ` set fieldMap"
    using assms(1) by (auto simp: fieldMap_api_names)
  then have "map_of fieldMap f = None"
    by (simp add: map_of_eq_None_iff)
  then show ?thesis
    by (simp add: buildConfidenceObject_map_of [OF posted_confidences [OF assms(2)]])
qed

lemma collect_form_data_modalShown:
  "collect_form_data (st\<lparr>modalShown := b\<rparr>) = collect_form_data st"
proof -
  have "buildConfidenceObject (st\<lparr>modalShown := b\<rparr>) = buildConfidenceObject st"
    unfolding buildConfidenceObject_def by (rule buildConfidenceLoop_cong) simp_all
  then show ?thesis
    by (simp add: collect_form_data_def value_of_def)
qed

subsection \<open>The example pages\<close>

lemma template_elements:
  "elements template_page ''name'' = Some blank"
  "elements template_page ''hours'' = Some blank"
  "elements template_page ''level'' = Some blank"
  "elements template_page ''name_conf'' = Some blank"
  "elements template_page ''hours_conf'' = Some blank"
  "elements template_page ''level_conf'' = None"
  by (simp_all add: template_page_def)

lemma flags_example: "list_ex (flags example_fields template_page) fieldMap"
  by (simp add: flags_def fills_def value_at_def conf_at_def example_fields_def fieldMap_def
      template_elements level_def conf_or_zero_def)

lemma flags_blank_medium: "\<not> list_ex (flags blank_medium_fields template_page) fieldMap"
  by (simp add: flags_def fills_def value_at_def conf_at_def blank_medium_fields_def fieldMap_def)

lemma template_presence:
  "(elements template_page k = None) \<longleftrightarrow>
     k \<notin> set [''name'', ''apaarId'', ''institutionCode'', ''organization'', ''internshipTitle'',
               ''startDate'', ''endDate'', ''hours'', ''level'', ''logs'',
               ''name_conf'', ''apaarId_conf'', ''institutionCode_conf'', ''organization_conf'',
               ''internshipTitle_conf'', ''startDate_conf'', ''endDate_conf'', ''hours_conf'',
               ''submitBtn'']"
  by (simp add: template_page_def map_of_eq_None_iff)

lemma form_complete_template: "form_complete template_page"
  by (simp add: form_complete_def template_presence)

lemma form_complete_examples:
  "form_complete filled_page" "form_complete verified_page"
  "form_complete hours_edited_page" "form_complete both_edited_page"
  using form_complete_template
  by (simp_all add: form_complete_def filled_page_def verified_page_def hours_edited_page_def
      both_edited_page_def)

lemma hasLowConfidence_filled: "hasLowConfidence filled_page"
  using flags_example by (simp add: filled_page_def autoFillForm_closed Let_def example_fields_def)

lemma template_fields [simp]:
  "uploadId template_page = ''42''" "requests template_page = []"
  "fieldConfidences template_page = Map.empty" "location_href template_page = None"
  "unhandled template_page = []" "\<not> hasLowConfidence template_page"
  "\<not> modalShown template_page"
  by (simp_all add: template_page_def)

lemma template_controls:
  "elements template_page ''name'' = Some blank"
  "elements template_page ''apaarId'' = Some blank"
  "elements template_page ''institutionCode'' = Some blank"
  "elements template_page ''organization'' = Some blank"
  "elements template_page ''internshipTitle'' = Some blank"
  "elements template_page ''startDate'' = Some blank"
  "elements template_page ''endDate'' = Some blank"
  "elements template_page ''hours'' = Some blank"
  "elements template_page ''level'' = Some blank"
  "elements template_page ''logs'' = Some blank"
  "elements template_page ''level_conf'' = None"
  "elements template_page ''submitBtn'' =
     Some (blank\<lparr>textContent := ''Submit for Credit Evaluation''\<rparr>)"
  by (simp_all add: template_page_def)

lemma both_edited_values:
  "value_of both_edited_page ''name'' = Inr []"
  "value_of both_edited_page ''apaarId'' = Inr []"
  "value_of both_edited_page ''institutionCode'' = Inr []"
  "value_of both_edited_page ''organization'' = Inr []"
  "value_of both_edited_page ''internshipTitle'' = Inr []"
  "value_of both_edited_page ''startDate'' = Inr []"
  "value_of both_edited_page ''endDate'' = Inr []"
  "value_of both_edited_page ''hours'' = Inr ''120''"
  "value_of both_edited_page ''level'' = Inr ''UG''"
  "value_of both_edited_page ''logs'' = Inr []"
  by (simp_all add: value_of_def both_edited_page_def hours_edited_page_def user_edit_def
      elements_change_listener elements_update_element template_controls blank_def
      classList_add_def classList_remove_def)

lemma both_edited_fields:
  "fieldConfidences both_edited_page = [''hours'' \<mapsto> 1, ''level'' \<mapsto> 1]"
  "requests both_edited_page = []"
  "uploadId both_edited_page = ''42''"
  "elements both_edited_page ''submitBtn'' \<noteq> None"
  "location_href both_edited_page = None"
  "unhandled both_edited_page = []"
  by (simp_all add: both_edited_page_def hours_edited_page_def fieldConfidences_user_edit
      template_controls)

lemma both_edited_confidences:
  "buildConfidenceObject both_edited_page =
     Inr [(''hours'', \<lparr>entry_value = ''120'', entry_conf = 1\<rparr>)]"
  by (simp add: buildConfidenceObject_def fieldMap_def both_edited_fields both_edited_values
      and_then_def)

lemma both_edited_collect: "collect_form_data both_edited_page = Inr both_edited_payload"
  by (simp add: collect_form_data_def and_then_def both_edited_values both_edited_confidences
      both_edited_fields both_edited_payload_def)

lemma both_edited_posted:
  "requests (submitForm net both_edited_page) =
     requests both_edited_page @ [post_of both_edited_payload]"
  using both_edited_fields(4) both_edited_collect by (rule requests_submitForm_complete)

lemma filled_confidences:
  "fieldConfidences filled_page ''name'' = Some 0.9"
  "fieldConfidences filled_page ''apaarId'' = None"
  "fieldConfidences filled_page ''institutionCode'' = None"
  "fieldConfidences filled_page ''organization'' = None"
  "fieldConfidences filled_page ''internshipTitle'' = None"
  "fieldConfidences filled_page ''startDate'' = None"
  "fieldConfidences filled_page ''endDate'' = None"
  "fieldConfidences filled_page ''hours'' = Some 0.4"
  using fieldConfidences_autoFillForm_at [of "(''name'', ''name'')" percent_text example_fields template_page]
        fieldConfidences_autoFillForm_at [of "(''apaar_id'', ''apaarId'')" percent_text example_fields template_page]
        fieldConfidences_autoFillForm_at [of "(''institution_code'', ''institutionCode'')" percent_text example_fields template_page]
        fieldConfidences_autoFillForm_at [of "(''organization'', ''organization'')" percent_text example_fields template_page]
        fieldConfidences_autoFillForm_at [of "(''internship_title'', ''internshipTitle'')" percent_text example_fields template_page]
        fieldConfidences_autoFillForm_at [of "(''start_date'', ''startDate'')" percent_text example_fields template_page]
        fieldConfidences_autoFillForm_at [of "(''end_date'', ''endDate'')" percent_text example_fields template_page]
        fieldConfidences_autoFillForm_at [of "(''hours'', ''hours'')" percent_text example_fields template_page]
  by (simp_all add: filled_page_def fieldMap_def fills_def value_at_def conf_at_def
      conf_or_zero_def example_fields_def template_controls)

lemma early_edit_badge:
  "elements early_edit_page ''hours_conf'' =
     Some (blank\<lparr>classList := [''field-confidence'', ''confidence-high''],
                 textContent := check_mark @ '' Verified by student''\<rparr>)"
  "elements early_edit_page ''hours'' \<noteq> None"
  "fieldConfidences early_edit_page ''hours'' = Some 1"
  by (simp_all add: early_edit_page_def user_edit_def elements_change_listener
      fieldConfidences_change_listener elements_update_element template_elements)

lemma send_page_posted:
  "requests (submitForm net send_page) = requests send_page @ [post_of both_edited_payload]"
proof (rule requests_submitForm_complete)
  show "elements send_page ''submitBtn'' \<noteq> None"
    using both_edited_fields(4) by (simp add: send_page_def)
  show "collect_form_data send_page = Inr both_edited_payload"
    by (simp add: send_page_def collect_form_data_submitBtn both_edited_collect)
qed

lemma example_fill_values:
  assumes "elements st ''name'' \<noteq> None" "elements st ''hours'' \<noteq> None"
  shows "value_of (autoFillForm pct example_fields st) ''name'' = Inr ''Asha''"
    "value_of (autoFillForm pct example_fields st) ''apaarId'' = value_of st ''apaarId''"
    "value_of (autoFillForm pct example_fields st) ''institutionCode'' = value_of st ''institutionCode''"
    "value_of (autoFillForm pct example_fields st) ''organization'' = value_of st ''organization''"
    "value_of (autoFillForm pct example_fields st) ''internshipTitle'' = value_of st ''internshipTitle''"
    "value_of (autoFillForm pct example_fields st) ''startDate'' = value_of st ''startDate''"
    "value_of (autoFillForm pct example_fields st) ''endDate'' = value_of st ''endDate''"
    "value_of (autoFillForm pct example_fields st) ''hours'' = Inr ''120''"
    "value_of (autoFillForm pct example_fields st) ''level'' = value_of st ''level''"
    "value_of (autoFillForm pct example_fields st) ''logs'' = value_of st ''logs''"
proof -
  note at = value_of_autoFillForm_at [of _ pct example_fields st]
  show "value_of (autoFillForm pct example_fields st) ''name'' = Inr ''Asha''"
    using at [of "(''name'', ''name'')"] assms
    by (simp add: fieldMap_def fills_def value_at_def example_fields_def)
  show "value_of (autoFillForm pct example_fields st) ''hours'' = Inr ''120''"
    using at [of "(''hours'', ''hours'')"] assms
    by (simp add: fieldMap_def fills_def value_at_def example_fields_def)
  show "value_of (autoFillForm pct example_fields st) ''apaarId'' = value_of st ''apaarId''"
    using at [of "(''apaar_id'', ''apaarId'')"]
    by (simp add: fieldMap_def fills_def value_at_def example_fields_def)
  show "value_of (autoFillForm pct example_fields st) ''institutionCode'' = value_of st ''institutionCode''"
    using at [of "(''institution_code'', ''institutionCode'')"]
    by (simp add: fieldMap_def fills_def value_at_def example_fields_def)
  show "value_of (autoFillForm pct example_fields st) ''organization'' = value_of st ''organization''"
    using at [of "(''organization'', ''organization'')"]
    by (simp add: fieldMap_def fills_def value_at_def example_fields_def)
  show "value_of (autoFillForm pct example_fields st) ''internshipTitle'' = value_of st ''internshipTitle''"
    using at [of "(''internship_title'', ''internshipTitle'')"]
    by (simp add: fieldMap_def fills_def value_at_def example_fields_def)
  show "value_of (autoFillForm pct example_fields st) ''startDate'' = value_of st ''startDate''"
    using at [of "(''start_date'', ''startDate'')"]
    by (simp add: fieldMap_def fills_def value_at_def example_fields_def)
  show "value_of (autoFillForm pct example_fields st) ''endDate'' = value_of st ''endDate''"
    using at [of "(''end_date'', ''endDate'')"]
    by (simp add: fieldMap_def fills_def value_at_def example_fields_def)
  show "value_of (autoFillForm pct example_fields st) ''level'' = value_of st ''level''"
    by (rule value_of_autoFillForm_other) (auto simp: fieldMap_def)
  show "value_of (autoFillForm pct example_fields st) ''logs'' = value_of st ''logs''"
    by (rule value_of_autoFillForm_other) (auto simp: fieldMap_def)
qed

lemma example_fill_confidences:
  assumes "elements st ''name'' \<noteq> None" "elements st ''hours'' \<noteq> None"
  shows "fieldConfidences (autoFillForm pct example_fields st) ''name'' = Some 0.9"
    "fieldConfidences (autoFillForm pct example_fields st) ''apaarId'' = fieldConfidences st ''apaarId''"
    "fieldConfidences (autoFillForm pct example_fields st) ''institutionCode'' = fieldConfidences st ''institutionCode''"
    "fieldConfidences (autoFillForm pct example_fields st) ''organization'' = fieldConfidences st ''organization''"
    "fieldConfidences (autoFillForm pct example_fields st) ''internshipTitle'' = fieldConfidences st ''internshipTitle''"
    "fieldConfidences (autoFillForm pct example_fields st) ''startDate'' = fieldConfidences st ''startDate''"
    "fieldConfidences (autoFillForm pct example_fields st) ''endDate'' = fieldConfidences st ''endDate''"
    "fieldConfidences (autoFillForm pct example_fields st) ''hours'' = Some 0.4"
  using fieldConfidences_autoFillForm_at [of "(''name'', ''name'')" pct example_fields st]
        fieldConfidences_autoFillForm_at [of "(''apaar_id'', ''apaarId'')" pct example_fields st]
        fieldConfidences_autoFillForm_at [of "(''institution_code'', ''institutionCode'')" pct example_fields st]
        fieldConfidences_autoFillForm_at [of "(''organization'', ''organization'')" pct example_fields st]
        fieldConfidences_autoFillForm_at [of "(''internship_title'', ''internshipTitle'')" pct example_fields st]
        fieldConfidences_autoFillForm_at [of "(''start_date'', ''startDate'')" pct example_fields st]
        fieldConfidences_autoFillForm_at [of "(''end_date'', ''endDate'')" pct example_fields st]
        fieldConfidences_autoFillForm_at [of "(''hours'', ''hours'')" pct example_fields st]
        assms
  by (simp_all add: fieldMap_def fills_def value_at_def conf_at_def conf_or_zero_def
      example_fields_def)

lemma template_values:
  "value_of template_page ''name'' = Inr []" "value_of template_page ''apaarId'' = Inr []"
  "value_of template_page ''institutionCode'' = Inr []"
  "value_of template_page ''organization'' = Inr []"
  "value_of template_page ''internshipTitle'' = Inr []"
  "value_of template_page ''startDate'' = Inr []" "value_of template_page ''endDate'' = Inr []"
  "value_of template_page ''hours'' = Inr []" "value_of template_page ''level'' = Inr []"
  "value_of template_page ''logs'' = Inr []"
  by (simp_all add: value_of_def template_controls blank_def)

lemma verified_values:
  "value_of verified_page ''name'' = Inr ''Asha''" "value_of verified_page ''apaarId'' = Inr []"
  "value_of verified_page ''institutionCode'' = Inr []"
  "value_of verified_page ''organization'' = Inr []"
  "value_of verified_page ''internshipTitle'' = Inr []"
  "value_of verified_page ''startDate'' = Inr []" "value_of verified_page ''endDate'' = Inr []"
  "value_of verified_page ''hours'' = Inr ''120''" "value_of verified_page ''level'' = Inr []"
  "value_of verified_page ''logs'' = Inr []"
  using example_fill_values [of template_page percent_text]
  by (simp_all add: verified_page_def filled_page_def value_of_user_edit template_values
      template_controls)

lemma verified_confidences:
  "fieldConfidences verified_page ''name'' = Some 0.9"
  "fieldConfidences verified_page ''apaarId'' = None"
  "fieldConfidences verified_page ''institutionCode'' = None"
  "fieldConfidences verified_page ''organization'' = None"
  "fieldConfidences verified_page ''internshipTitle'' = None"
  "fieldConfidences verified_page ''startDate'' = None"
  "fieldConfidences verified_page ''endDate'' = None"
  "fieldConfidences verified_page ''hours'' = Some 1"
proof -
  have "elements filled_page ''hours'' \<noteq> None"
    by (simp add: filled_page_def template_presence)
  then show "fieldConfidences verified_page ''name'' = Some 0.9"
    "fieldConfidences verified_page ''apaarId'' = None"
    "fieldConfidences verified_page ''institutionCode'' = None"
    "fieldConfidences verified_page ''organization'' = None"
    "fieldConfidences verified_page ''internshipTitle'' = None"
    "fieldConfidences verified_page ''startDate'' = None"
    "fieldConfidences verified_page ''endDate'' = None"
    "fieldConfidences verified_page ''hours'' = Some 1"
    using filled_confidences
    by (simp_all add: verified_page_def fieldConfidences_user_edit)
qed

lemma verified_collect: "collect_form_data verified_page = Inr verified_payload"
proof -
  have "buildConfidenceObject verified_page =
          Inr [(''name'', \<lparr>entry_value = ''Asha'', entry_conf = 0.9\<rparr>),
               (''hours'', \<lparr>entry_value = ''120'', entry_conf = 1\<rparr>)]"
    by (simp add: buildConfidenceObject_def fieldMap_def verified_confidences verified_values
        and_then_def)
  moreover have "uploadId verified_page = ''42''"
    by (simp add: verified_page_def filled_page_def)
  ultimately show ?thesis
    by (simp add: collect_form_data_def and_then_def verified_values verified_payload_def)
qed

lemma early_edit_presence:
  "elements early_edit_page ''name'' \<noteq> None" "elements early_edit_page ''hours'' \<noteq> None"
  "elements early_edit_page ''submitBtn'' \<noteq> None"
  by (simp_all add: early_edit_page_def template_controls)

lemma early_edit_confidences:
  "fieldConfidences early_edit_page = [''hours'' \<mapsto> 1]"
  by (simp add: early_edit_page_def fieldConfidences_user_edit template_controls)

lemma early_edit_values:
  "value_of early_edit_page ''name'' = Inr []" "value_of early_edit_page ''apaarId'' = Inr []"
  "value_of early_edit_page ''institutionCode'' = Inr []"
  "value_of early_edit_page ''organization'' = Inr []"
  "value_of early_edit_page ''internshipTitle'' = Inr []"
  "value_of early_edit_page ''startDate'' = Inr []" "value_of early_edit_page ''endDate'' = Inr []"
  "value_of early_edit_page ''hours'' = Inr ''100''" "value_of early_edit_page ''level'' = Inr []"
  "value_of early_edit_page ''logs'' = Inr []"
  by (simp_all add: early_edit_page_def value_of_user_edit template_values template_controls)

lemma refilled_values:
  "value_of refilled_page ''name'' = Inr ''Asha''" "value_of refilled_page ''apaarId'' = Inr []"
  "value_of refilled_page ''institutionCode'' = Inr []"
  "value_of refilled_page ''organization'' = Inr []"
  "value_of refilled_page ''internshipTitle'' = Inr []"
  "value_of refilled_page ''startDate'' = Inr []" "value_of refilled_page ''endDate'' = Inr []"
  "value_of refilled_page ''hours'' = Inr ''120''" "value_of refilled_page ''level'' = Inr []"
  "value_of refilled_page ''logs'' = Inr []"
  using example_fill_values [OF early_edit_presence(1,2), of percent_text]
  by (simp_all add: refilled_page_def early_edit_values)

lemma refilled_confidences:
  "fieldConfidences refilled_page ''name'' = Some 0.9"
  "fieldConfidences refilled_page ''apaarId'' = None"
  "fieldConfidences refilled_page ''institutionCode'' = None"
  "fieldConfidences refilled_page ''organization'' = None"
  "fieldConfidences refilled_page ''internshipTitle'' = None"
  "fieldConfidences refilled_page ''startDate'' = None"
  "fieldConfidences refilled_page ''endDate'' = None"
  "fieldConfidences refilled_page ''hours'' = Some 0.4"
  using example_fill_confidences [OF early_edit_presence(1,2), of percent_text]
  by (simp_all add: refilled_page_def early_edit_confidences)

lemma refilled_collect: "collect_form_data refilled_page = Inr refilled_payload"
proof -
  have "buildConfidenceObject refilled_page =
          Inr [(''name'', \<lparr>entry_value = ''Asha'', entry_conf = 0.9\<rparr>),
               (''hours'', \<lparr>entry_value = ''120'', entry_conf = 0.4\<rparr>)]"
    by (simp add: buildConfidenceObject_def fieldMap_def refilled_confidences refilled_values
        and_then_def)
  moreover have "uploadId refilled_page = ''42''"
    by (simp add: refilled_page_def early_edit_page_def)
  ultimately show ?thesis
    by (simp add: collect_form_data_def and_then_def refilled_values refilled_payload_def)
qed

lemma refilled_posted:
  "requests (submitForm net refilled_page) = [post_of refilled_payload]"
proof -
  have "elements refilled_page ''submitBtn'' \<noteq> None"
    using early_edit_presence(3) by (simp add: refilled_page_def)
  then have "requests (submitForm net refilled_page) = requests refilled_page @ [post_of refilled_payload]"
    using refilled_collect by (rule requests_submitForm_complete)
  then show ?thesis
    by (simp add: refilled_page_def early_edit_page_def)
qed

lemma verified_prompted:
  "run percent_text [Submit server_error] verified_page = verified_page\<lparr>modalShown := True\<rparr>"
  using hasLowConfidence_filled
  by (simp add: run_def submit_listener_def verified_page_def)

lemma verified_posted:
  "requests (submitForm net (verified_page\<lparr>modalShown := True\<rparr>)) =
     requests (verified_page\<lparr>modalShown := True\<rparr>) @ [post_of verified_payload]"
proof (rule requests_submitForm_complete)
  show "elements (verified_page\<lparr>modalShown := True\<rparr>) ''submitBtn'' \<noteq> None"
    by (simp add: verified_page_def filled_page_def template_presence)
  show "collect_form_data (verified_page\<lparr>modalShown := True\<rparr>) = Inr verified_payload"
    by (simp add: collect_form_data_modalShown verified_collect)
qed

subsection \<open>The review page\<close>

text \<open>
  C3, as the code has it. Let a field of \<open>fieldMap\<close> be present in the extraction result
  with a non-empty value, with its control and its badge element \<open>d\<close> on the page, and let
  \<open>c\<close> be its confidence, \<open>0\<close> when absent. The level of \<open>c\<close> is High iff \<open>c \<ge> 0.75\<close>,
  Medium iff \<open>0.5 \<le> c < 0.75\<close>, Low iff \<open>0 < c < 0.5\<close> and Unset iff \<open>c \<le> 0\<close>. After
  \<open>autoFillForm\<close> the badge element is the High, Medium or Low badge of that level, and
  for \<open>c \<le> 0\<close> it is \<open>d\<close>, left as it was. So when \<open>d\<close> showed no badge before, the badge
  shown is the High one iff \<open>c \<ge> 0.75\<close>, the Medium one iff \<open>0.5 \<le> c < 0.75\<close>, the Low
  one iff \<open>0 < c < 0.5\<close>, and none is shown iff \<open>c \<le> 0\<close>.
\<close>

theorem badge_level_thresholds:
  assumes scored: "(apiField, formField) \<in> set fieldMap"
      and present: "map_of flds apiField = Some f" "field_value f = Some v" "v \<noteq> []"
      and control: "elements st formField \<noteq> None"
      and before: "elements st (formField @ ''_conf'') = Some d"
      and c: "c = conf_or_zero (conf f)"
  shows "(level c = High \<longleftrightarrow> c \<ge> 0.75) \<and>
         (level c = Medium \<longleftrightarrow> 0.5 \<le> c \<and> c < 0.75) \<and>
         (level c = Low \<longleftrightarrow> 0 < c \<and> c < 0.5) \<and>
         (level c = Unset \<longleftrightarrow> c \<le> 0) \<and>
         (conf f = None \<longrightarrow> c = 0) \<and>
         (c \<ge> 0.75 \<longrightarrow>
            elements (autoFillForm pct flds st) (formField @ ''_conf'') =
              Some (d\<lparr>classList := [''field-confidence'', ''confidence-high''],
                      textContent := check_mark @ '' High confidence ('' @ pct c @ ''%)''\<rparr>)) \<and>
         (0.5 \<le> c \<and> c < 0.75 \<longrightarrow>
            elements (autoFillForm pct flds st) (formField @ ''_conf'') =
              Some (d\<lparr>classList := [''field-confidence'', ''confidence-medium''],
                      textContent := warning_sign @ '' Medium confidence ('' @ pct c
                                       @ ''%) - Please verify''\<rparr>)) \<and>
         (0 < c \<and> c < 0.5 \<longrightarrow>
            elements (autoFillForm pct flds st) (formField @ ''_conf'') =
              Some (d\<lparr>classList := [''field-confidence'', ''confidence-low''],
                      textContent := warning_sign @ '' Low confidence ('' @ pct c
                                       @ ''%) - Please verify''\<rparr>)) \<and>
         (c \<le> 0 \<longrightarrow> elements (autoFillForm pct flds st) (formField @ ''_conf'') = Some d) \<and>
         (''field-confidence'' \<notin> set (classList d) \<longrightarrow>
            (map_option classList (elements (autoFillForm pct flds st) (formField @ ''_conf'')) =
               Some [''field-confidence'', ''confidence-high''] \<longleftrightarrow> c \<ge> 0.75) \<and>
            (map_option classList (elements (autoFillForm pct flds st) (formField @ ''_conf'')) =
               Some [''field-confidence'', ''confidence-medium''] \<longleftrightarrow> 0.5 \<le> c \<and> c < 0.75) \<and>
            (map_option classList (elements (autoFillForm pct flds st) (formField @ ''_conf'')) =
               Some [''field-confidence'', ''confidence-low''] \<longleftrightarrow> 0 < c \<and> c < 0.5) \<and>
            (map_option (\<lambda>e. ''field-confidence'' \<in> set (classList e))
               (elements (autoFillForm pct flds st) (formField @ ''_conf'')) = Some False
               \<longleftrightarrow> c \<le> 0))"
proof -
  have after: "elements (autoFillForm pct flds st) (formField @ ''_conf'') = Some (badge pct c d)"
    using badge_autoFillForm [OF scored present control, of pct] before c by simp
  have zero: "conf f = None \<longrightarrow> c = 0"
    using c by (simp add: conf_or_zero_def)
  show ?thesis
    unfolding after using zero
    by (auto simp: badge_def level_def)
qed

theorem badge_level_thresholds_witness:
  "level 0.4 = Low \<and> level 0.9 = High \<and>
   map_option classList (elements filled_page ''hours_conf'') =
     Some [''field-confidence'', ''confidence-low''] \<and>
   map_option classList (elements filled_page ''name_conf'') =
     Some [''field-confidence'', ''confidence-high'']"
proof -
  have scored: "(''hours'', ''hours'') \<in> set fieldMap" "(''name'', ''name'') \<in> set fieldMap"
    by (simp_all add: fieldMap_def)
  have hours: "map_of example_fields ''hours'' = Some \<lparr>field_value = Some ''120'', conf = Some 0.4\<rparr>"
    "field_value \<lparr>field_value = Some ''120'', conf = Some 0.4\<rparr> = Some ''120''" "''120'' \<noteq> []"
    "elements template_page ''hours'' \<noteq> None" "elements template_page (''hours'' @ ''_conf'') = Some blank"
    "0.4 = conf_or_zero (conf \<lparr>field_value = Some ''120'', conf = Some 0.4\<rparr>)"
    by (simp_all add: example_fields_def template_elements conf_or_zero_def)
  have name: "map_of example_fields ''name'' = Some \<lparr>field_value = Some ''Asha'', conf = Some 0.9\<rparr>"
    "field_value \<lparr>field_value = Some ''Asha'', conf = Some 0.9\<rparr> = Some ''Asha''" "''Asha'' \<noteq> []"
    "elements template_page ''name'' \<noteq> None" "elements template_page (''name'' @ ''_conf'') = Some blank"
    "0.9 = conf_or_zero (conf \<lparr>field_value = Some ''Asha'', conf = Some 0.9\<rparr>)"
    by (simp_all add: example_fields_def template_elements conf_or_zero_def)
  have fresh: "''field-confidence'' \<notin> set (classList blank)"
    by (simp add: blank_def)
  show ?thesis
    using badge_level_thresholds [OF scored(1) hours, of percent_text]
          badge_level_thresholds [OF scored(2) name, of percent_text] fresh
    by (simp add: filled_page_def)
qed

text \<open>
  C3 as stated fails in its last part: when the user has edited \<open>hours\<close> before the
  auto-fill arrives, and the result gives \<open>hours\<close> without a confidence, the level is
  Unset and the recorded confidence \<open>0\<close>, and the badge of the earlier edit is still
  shown.
\<close>

theorem badge_unset_counterexample:
  "map_of unscored_fields ''hours'' = Some \<lparr>field_value = Some ''120'', conf = None\<rparr> \<and>
   level (conf_or_zero None) = Unset \<and>
   fieldConfidences unscored_page ''hours'' = Some 0 \<and>
   elements unscored_page ''hours_conf'' =
     Some (blank\<lparr>classList := [''field-confidence'', ''confidence-high''],
                 textContent := check_mark @ '' Verified by student''\<rparr>)"
proof -
  have scored: "(''hours'', ''hours'') \<in> set fieldMap"
    by (simp add: fieldMap_def)
  have f: "map_of unscored_fields ''hours'' = Some \<lparr>field_value = Some ''120'', conf = None\<rparr>"
    by (simp add: unscored_fields_def)
  have unset: "level (conf_or_zero None) = Unset"
    by (simp add: level_def conf_or_zero_def)
  have "elements unscored_page (''hours'' @ ''_conf'') =
          map_option (badge percent_text (conf_or_zero None)) (elements early_edit_page (''hours'' @ ''_conf''))"
    unfolding unscored_page_def
    using badge_autoFillForm [OF scored f _ _ early_edit_badge(2), of "''120''" percent_text]
    by simp
  then have badge: "elements unscored_page ''hours_conf'' =
      Some (blank\<lparr>classList := [''field-confidence'', ''confidence-high''],
                  textContent := check_mark @ '' Verified by student''\<rparr>)"
    using unset by (simp add: early_edit_badge badge_def)
  have "fills unscored_fields early_edit_page (''hours'', ''hours'')"
    using early_edit_badge(2) by (simp add: fills_def value_at_def unscored_fields_def)
  then have "fieldConfidences unscored_page ''hours'' = Some 0"
    using fieldConfidences_autoFillForm_at [OF scored, of percent_text unscored_fields early_edit_page]
    by (simp add: unscored_page_def conf_at_def unscored_fields_def conf_or_zero_def)
  then show ?thesis
    using f unset badge by simp
qed

text \<open>
  C7. \<open>autoFillForm\<close> is idempotent: a second call with the same extraction result
  leaves the whole page state as the first call made it.
\<close>

theorem autoFillForm_idempotent:
  "autoFillForm pct flds (autoFillForm pct flds st) = autoFillForm pct flds st"
  by (simp add: autoFillForm_closed Let_def fold_fill_page_hasLowConfidence_update
      fold_fill_page_confidenceIndicator_update fold_fill_page_idem)

text \<open>
  C6, as the code has it. After \<open>autoFillForm\<close> the banner is untouched when the
  extraction result has no key at all. Otherwise it is displayed, as the
  attention-needed summary when some entry of \<open>fieldMap\<close> flags the page (its field has
  a non-empty value, its control and its badge element exist, and its level is Medium
  or Low), and as the affirmative summary in every other case.
\<close>

theorem autoFillForm_banner:
  "confidenceIndicator (autoFillForm pct flds st) =
     (if flds = [] then confidenceIndicator st
      else if list_ex (flags flds st) fieldMap
      then needs_attention_banner (confidenceIndicator st)
      else all_high_banner (confidenceIndicator st))"
  by (simp add: autoFillForm_closed Let_def banner_def)

theorem autoFillForm_banner_witness:
  "display (confidenceIndicator (autoFillForm percent_text example_fields template_page)) = ''block'' \<and>
   classList (confidenceIndicator (autoFillForm percent_text example_fields template_page)) =
     [''alert'', ''confidence-indicator-needs-attention''] \<and>
   display (confidenceIndicator (autoFillForm percent_text [] template_page)) = ''none''"
  using autoFillForm_banner [of percent_text example_fields template_page]
        autoFillForm_banner [of percent_text "[]" template_page] flags_example
  by (simp add: needs_attention_banner_def example_fields_def template_page_def)

text \<open>
  C6 as stated fails: for the result \<open>{name: {value: "", conf: 0.6}}\<close> the only field
  present is Medium, and the banner is the affirmative summary.
\<close>

theorem autoFillForm_banner_counterexample:
  "map_of blank_medium_fields ''name'' = Some \<lparr>field_value = Some [], conf = Some 0.6\<rparr> \<and>
   level 0.6 = Medium \<and>
   display (all_high_banner (confidenceIndicator template_page)) = ''block'' \<and>
   confidenceIndicator (autoFillForm percent_text blank_medium_fields template_page) =
     all_high_banner (confidenceIndicator template_page)"
  using flags_blank_medium
  by (simp add: autoFillForm_closed Let_def banner_def level_def all_high_banner_def)
     (simp add: blank_medium_fields_def)

text \<open>
  C1, on the example of the spec. After the auto-fill of \<open>{name: 0.9, hours: 0.4}\<close> and
  the user's edit of \<open>hours\<close>, every recorded confidence is High and the badge of
  \<open>hours\<close> is the verified one, so that no field is Medium or Low. The flag
  \<open>hasLowConfidence\<close>, set by the auto-fill, is still set: \<open>submit\<close> shows the
  confirmation prompt and sends nothing.
\<close>

theorem submit_after_verification_prompts:
  "map (fieldConfidences verified_page) (map snd fieldMap) =
     [Some 0.9, None, None, None, None, None, None, Some 1] \<and>
   level 0.9 = High \<and> level 1 = High \<and>
   map_option classList (elements verified_page ''hours_conf'') =
     Some [''field-confidence'', ''confidence-high''] \<and>
   hasLowConfidence verified_page \<and>
   modalShown (submit_listener server_error verified_page) \<and>
   requests (submit_listener server_error verified_page) = []"
proof -
  have "elements filled_page ''hours_conf'' \<noteq> None" "elements filled_page ''hours'' \<noteq> None"
    by (simp_all add: filled_page_def template_presence)
  then obtain c d where c: "elements filled_page ''hours'' = Some c"
    and d: "elements filled_page ''hours_conf'' = Some d"
    by auto
  have conf: "map (fieldConfidences verified_page) (map snd fieldMap) =
                [Some 0.9, None, None, None, None, None, None, Some 1]"
    using c
    by (simp add: verified_page_def fieldConfidences_user_edit fieldMap_def filled_confidences)
  have flag: "hasLowConfidence verified_page"
    by (simp add: verified_page_def hasLowConfidence_filled)
  have badge: "map_option classList (elements verified_page ''hours_conf'') =
                 Some [''field-confidence'', ''confidence-high'']"
    using c d by (simp add: verified_page_def user_edit_def elements_change_listener
        elements_update_element)
  have none: "requests verified_page = []"
    by (simp add: verified_page_def filled_page_def autoFillForm_closed Let_def)
  show ?thesis
    using conf flag badge none by (simp add: submit_listener_def level_def)
qed

text \<open>
  C2, as the code has it. After the user edits a control, whichever confidence was
  recorded before, the recorded confidence under its id is \<open>1\<close>, whose level is High. If
  the control belongs to a field of \<open>fieldMap\<close>, then after any further events among which
  no auto-fill brings a value for that field, a submission that reaches \<open>fetch\<close> carries
  the field in \<open>field_confidences\<close> with confidence \<open>1\<close> and the current value of the
  control. If the control is \<open>level\<close> or \<open>logs\<close>, no submission sent afterwards has an
  entry for it in \<open>field_confidences\<close>.
\<close>

theorem edited_field_posted_verified:
  assumes control: "elements st field_id \<noteq> None"
  shows "fieldConfidences (user_edit field_id v st) field_id = Some 1 \<and> level 1 = High \<and>
         (\<forall>apiField evs net q.
            (apiField, field_id) \<in> set fieldMap \<and> (\<forall>ev\<in>set evs. \<not> refills apiField ev) \<and>
            requests (submitForm net (run pct evs (user_edit field_id v st))) =
              requests (run pct evs (user_edit field_id v st)) @ [q] \<longrightarrow>
            (\<exists>e. map_of (field_confidences (body q)) apiField = Some e \<and> entry_conf e = 1 \<and>
                 map_option el_value (elements (run pct evs (user_edit field_id v st)) field_id) =
                   Some (entry_value e))) \<and>
         (field_id \<in> {''level'', ''logs''} \<longrightarrow>
            (\<forall>evs net q.
               requests (submitForm net (run pct evs (user_edit field_id v st))) =
                 requests (run pct evs (user_edit field_id v st)) @ [q] \<longrightarrow>
               map_of (field_confidences (body q)) field_id = None))"
proof (intro conjI allI impI)
  show "fieldConfidences (user_edit field_id v st) field_id = Some 1"
    using control by (auto simp: fieldConfidences_user_edit)
  show "level 1 = High"
    by (simp add: level_def)
next
  fix apiField evs net q
  assume "(apiField, field_id) \<in> set fieldMap \<and> (\<forall>ev\<in>set evs. \<not> refills apiField ev) \<and>
          requests (submitForm net (run pct evs (user_edit field_id v st))) =
            requests (run pct evs (user_edit field_id v st)) @ [q]"
  then show "\<exists>e. map_of (field_confidences (body q)) apiField = Some e \<and> entry_conf e = 1 \<and>
                 map_option el_value (elements (run pct evs (user_edit field_id v st)) field_id) =
                   Some (entry_value e)"
    using verified_stays_posted [OF _ control, of apiField evs net pct v q] by blast
next
  fix evs net q
  assume "field_id \<in> {''level'', ''logs''}"
    and "requests (submitForm net (run pct evs (user_edit field_id v st))) =
           requests (run pct evs (user_edit field_id v st)) @ [q]"
  then show "map_of (field_confidences (body q)) field_id = None"
    by (rule passthrough_not_posted)
qed

theorem edited_field_posted_verified_witness:
  "fieldConfidences filled_page ''hours'' = Some 0.4 \<and>
   fieldConfidences verified_page ''hours'' = Some 1 \<and>
   requests (submitForm server_error (run percent_text [Submit server_error] verified_page)) =
     [post_of verified_payload] \<and>
   map_of (field_confidences verified_payload) ''hours'' =
     Some \<lparr>entry_value = ''120'', entry_conf = 1\<rparr> \<and>
   fieldConfidences both_edited_page ''level'' = Some 1 \<and>
   map_of (field_confidences both_edited_payload) ''level'' = None"
proof -
  have hours: "elements filled_page ''hours'' \<noteq> None"
    by (simp add: filled_page_def template_presence)
  have level: "elements hours_edited_page ''level'' \<noteq> None"
    by (simp add: hours_edited_page_def template_controls)
  have scored: "(''hours'', ''hours'') \<in> set fieldMap"
    by (simp add: fieldMap_def)
  have later: "\<forall>ev\<in>set [Submit server_error]. \<not> refills ''hours'' ev"
    by (simp add: refills_def)
  have sent: "requests (submitForm server_error
                (run percent_text [Submit server_error] (user_edit ''hours'' ''120'' filled_page))) =
              requests (run percent_text [Submit server_error] (user_edit ''hours'' ''120'' filled_page))
                @ [post_of verified_payload]"
    using verified_posted [of server_error]
    by (simp only: verified_prompted verified_page_def [symmetric])
  have passed: "''level'' \<in> {''level'', ''logs''}"
    by simp
  have sent': "requests (submitForm server_error
                 (run percent_text [] (user_edit ''level'' ''UG'' hours_edited_page))) =
               requests (run percent_text [] (user_edit ''level'' ''UG'' hours_edited_page))
                 @ [post_of both_edited_payload]"
    using both_edited_posted [of server_error] by (simp add: run_def both_edited_page_def)
  note scored_case = edited_field_posted_verified [OF hours, of "''120''" percent_text]
  note passed_case = edited_field_posted_verified [OF level, of "''UG''" percent_text]
  have "\<exists>e. map_of (field_confidences (body (post_of verified_payload))) ''hours'' = Some e \<and>
             entry_conf e = 1"
    using scored_case [THEN conjunct2, THEN conjunct2, THEN conjunct1, rule_format,
        of "''hours''" "[Submit server_error]" server_error "post_of verified_payload"]
      scored later sent
    by blast
  moreover have "map_of (field_confidences (body (post_of both_edited_payload))) ''level'' = None"
    using passed_case [THEN conjunct2, THEN conjunct2, THEN conjunct2, rule_format,
        OF passed sent'] .
  moreover have "fieldConfidences (user_edit ''hours'' ''120'' filled_page) ''hours'' = Some 1"
    "fieldConfidences (user_edit ''level'' ''UG'' hours_edited_page) ''level'' = Some 1"
    using scored_case [THEN conjunct1] passed_case [THEN conjunct1] by simp_all
  moreover have "requests (verified_page\<lparr>modalShown := True\<rparr>) = []"
    by (simp add: verified_page_def filled_page_def)
  ultimately show ?thesis
    using verified_posted [of server_error] filled_confidences(8)
    by (simp add: verified_prompted verified_page_def [symmetric] both_edited_page_def [symmetric]
        post_of_def verified_payload_def)
qed

text \<open>
  C2 as stated fails in two ways. After an edit of \<open>level\<close> the confidence \<open>1\<close> is
  recorded under its id, and the payload posted afterwards carries the edited value but
  no entry for \<open>level\<close>. And when the user types \<open>100\<close> into \<open>hours\<close> before the delayed
  auto-fill arrives, the auto-fill overwrites the value and the recorded \<open>1\<close>, and the
  payload carries \<open>hours\<close> with the extracted value and the confidence \<open>0.4\<close>.
\<close>

theorem edited_field_not_posted_counterexample:
  "fieldConfidences both_edited_page ''level'' = Some 1 \<and>
   requests (submitForm server_error both_edited_page) = [post_of both_edited_payload] \<and>
   level_field both_edited_payload = ''UG'' \<and>
   map_of (field_confidences both_edited_payload) ''level'' = None \<and>
   fieldConfidences early_edit_page ''hours'' = Some 1 \<and>
   value_of early_edit_page ''hours'' = Inr ''100'' \<and>
   requests (submitForm server_error refilled_page) = [post_of refilled_payload] \<and>
   map_of (field_confidences refilled_payload) ''hours'' =
     Some \<lparr>entry_value = ''120'', entry_conf = 0.4\<rparr>"
  by (simp add: both_edited_posted both_edited_fields both_edited_payload_def
      early_edit_confidences early_edit_values refilled_posted refilled_payload_def)

text \<open>
  C4, as the code has it. Whenever \<open>submitForm\<close> has sent its request and the request
  fails, by a network error \<open>e\<close> or by a response that is not a success, the error region
  is displayed with \<open>Submission failed: \<close> followed by the message of the error; the
  submit button is enabled again and its label is set to the fixed text
  \<open>Submit for Credit Evaluation\<close>, so that a button that had this label before the call
  is as it was; the request of this call is the only one sent; the page does not
  navigate, and no error is left uncaught.
\<close>

theorem submitForm_failure:
  assumes posted: "requests (submitForm net st) \<noteq> requests st"
      and failed: "net = Rejected e \<or> (\<exists>r. net = Resolved r \<and> \<not> ok r \<and> e = Error ''Submission failed'')"
  shows "display (errorSection (submitForm net st)) = ''block'' \<and>
         textContent (errorSection (submitForm net st)) = ''Submission failed: '' @ message e \<and>
         (\<exists>b. elements st ''submitBtn'' = Some b \<and>
              elements (submitForm net st) ''submitBtn'' =
                Some (b\<lparr>disabled := False, textContent := ''Submit for Credit Evaluation''\<rparr>)) \<and>
         (\<forall>b. elements st ''submitBtn'' = Some b \<and> \<not> disabled b \<and>
              textContent b = ''Submit for Credit Evaluation'' \<longrightarrow>
              elements (submitForm net st) ''submitBtn'' = Some b) \<and>
         (\<exists>q. requests (submitForm net st) = requests st @ [q]) \<and>
         location_href (submitForm net st) = location_href st \<and>
         unhandled (submitForm net st) = unhandled st"
proof -
  obtain b p where b: "elements st ''submitBtn'' = Some b"
    and sent: "requests (submitForm net st) = requests st @ [post_of p]"
    and button: "elements (submitForm net st) ''submitBtn'' =
           Some (b\<lparr>disabled := False, textContent := ''Submit for Credit Evaluation''\<rparr>)"
    and region: "errorSection (submitForm net st) =
           (errorSection st)\<lparr>display := ''block'',
                             textContent := ''Submission failed: '' @ message e\<rparr>"
    and stay: "location_href (submitForm net st) = location_href st"
    and quiet: "unhandled (submitForm net st) = unhandled st"
    using posted failed by (rule submitForm_failed)
  have restored: "elements (submitForm net st) ''submitBtn'' = Some c"
    if "elements st ''submitBtn'' = Some c" "\<not> disabled c"
       "textContent c = ''Submit for Credit Evaluation''" for c
    using that b button by simp
  show ?thesis
    using b button restored quiet stay sent by (simp add: region)
qed

theorem submitForm_failure_witness:
  "textContent (errorSection (submitForm server_error both_edited_page)) =
     ''Submission failed: Submission failed'' \<and>
   textContent (errorSection (submitForm (Rejected (TypeError ''Failed to fetch'')) both_edited_page)) =
     ''Submission failed: Failed to fetch'' \<and>
   elements (submitForm server_error both_edited_page) ''submitBtn'' =
     elements both_edited_page ''submitBtn'' \<and>
   length (requests (submitForm server_error both_edited_page)) = 1 \<and>
   location_href (submitForm server_error both_edited_page) = None \<and>
   unhandled (submitForm server_error both_edited_page) = []"
proof -
  have posted: "requests (submitForm net both_edited_page) \<noteq> requests both_edited_page" for net
    by (simp add: both_edited_posted)
  have f1: "server_error = Rejected (Error ''Submission failed'') \<or>
            (\<exists>r. server_error = Resolved r \<and> \<not> ok r \<and>
                 Error ''Submission failed'' = Error ''Submission failed'')"
    by (simp add: server_error_def)
  have button: "elements both_edited_page ''submitBtn'' =
                  Some (blank\<lparr>textContent := ''Submit for Credit Evaluation''\<rparr>)"
    by (simp add: both_edited_page_def hours_edited_page_def user_edit_def
        elements_change_listener elements_update_element template_controls)
  show ?thesis
    using submitForm_failure [OF posted f1]
          submitForm_failure [OF posted, of "Rejected (TypeError ''Failed to fetch'')"
            "TypeError ''Failed to fetch''"]
          button
    by (auto simp: both_edited_fields blank_def)
qed

text \<open>
  C4 as stated fails in one part: on a page whose submit button is labelled \<open>Send\<close>, a
  failed submission leaves the button with the fixed text, not with its original label.
\<close>

theorem submitForm_label_counterexample:
  "map_option textContent (elements send_page ''submitBtn'') = Some ''Send'' \<and>
   requests (submitForm server_error send_page) = [post_of both_edited_payload] \<and>
   map_option textContent (elements (submitForm server_error send_page) ''submitBtn'') =
     Some ''Submit for Credit Evaluation''"
proof -
  have posted: "requests (submitForm server_error send_page) \<noteq> requests send_page"
    by (simp add: send_page_posted)
  have failed: "server_error = Rejected (Error ''Submission failed'') \<or>
            (\<exists>r. server_error = Resolved r \<and> \<not> ok r \<and>
                 Error ''Submission failed'' = Error ''Submission failed'')"
    by (simp add: server_error_def)
  have before: "elements send_page ''submitBtn'' =
                  Some (blank\<lparr>textContent := ''Send''\<rparr>)"
    by (simp add: send_page_def both_edited_page_def hours_edited_page_def user_edit_def
        elements_change_listener elements_update_element template_controls)
  have none: "requests send_page = []"
    by (simp add: send_page_def both_edited_fields)
  obtain b where "elements send_page ''submitBtn'' = Some b"
    and "elements (submitForm server_error send_page) ''submitBtn'' =
           Some (b\<lparr>disabled := False, textContent := ''Submit for Credit Evaluation''\<rparr>)"
    using posted failed by (rule submitForm_failed)
  then show ?thesis
    using before none by (auto simp: send_page_posted)
qed

text \<open>
  C8. In the payload of every request that \<open>submitForm\<close> sends, each entry of
  \<open>field_confidences\<close> belongs to a field of \<open>fieldMap\<close> that has a recorded confidence,
  which is the confidence of the entry; a field without a recorded confidence has no
  entry.
\<close>

theorem payload_confidences_recorded:
  assumes "requests (submitForm net st) = requests st @ [q]"
  shows "(\<forall>apiField e. map_of (field_confidences (body q)) apiField = Some e \<longrightarrow>
            (\<exists>formField. (apiField, formField) \<in> set fieldMap \<and>
                          fieldConfidences st formField = Some (entry_conf e))) \<and>
         (\<forall>a\<in>set fieldMap. fieldConfidences st (snd a) = None \<longrightarrow>
            map_of (field_confidences (body q)) (fst a) = None)"
proof -
  have b: "buildConfidenceObject st = Inr (field_confidences (body q))"
    using assms by (rule posted_confidences)
  show ?thesis
  proof (intro conjI allI impI ballI)
    fix apiField e
    assume "map_of (field_confidences (body q)) apiField = Some e"
    then obtain formField c where "map_of fieldMap apiField = Some formField"
      "fieldConfidences st formField = Some c" "entry_conf e = c"
      unfolding buildConfidenceObject_map_of [OF b]
      by (auto split: option.splits)
    then show "\<exists>formField. (apiField, formField) \<in> set fieldMap \<and>
                 fieldConfidences st formField = Some (entry_conf e)"
      by (auto dest: map_of_SomeD)
  next
    fix a
    assume "a \<in> set fieldMap" "fieldConfidences st (snd a) = None"
    then show "map_of (field_confidences (body q)) (fst a) = None"
      unfolding buildConfidenceObject_map_of [OF b]
      using map_of_fieldMap [of "fst a" "snd a"] by simp
  qed
qed

theorem payload_confidences_recorded_witness:
  "map_of (field_confidences both_edited_payload) ''name'' = None \<and>
   map_of (field_confidences both_edited_payload) ''hours'' =
     Some \<lparr>entry_value = ''120'', entry_conf = 1\<rparr> \<and>
   (\<exists>formField. (''hours'', formField) \<in> set fieldMap \<and>
                 fieldConfidences both_edited_page formField = Some 1)"
proof -
  have name: "(''name'', ''name'') \<in> set fieldMap"
    by (simp add: fieldMap_def)
  have none: "fieldConfidences both_edited_page (snd (''name'', ''name'')) = None"
    by (simp add: both_edited_fields)
  have entry: "map_of (field_confidences (body (post_of both_edited_payload))) ''hours'' =
                 Some \<lparr>entry_value = ''120'', entry_conf = 1\<rparr>"
    by (simp add: post_of_def both_edited_payload_def)
  note recorded = payload_confidences_recorded [OF both_edited_posted [of server_error]]
  have "\<exists>formField. (''hours'', formField) \<in> set fieldMap \<and>
          fieldConfidences both_edited_page formField =
            Some (entry_conf \<lparr>entry_value = ''120'', entry_conf = 1\<rparr>)"
    using recorded [THEN conjunct1, rule_format, OF entry] .
  moreover have "map_of (field_confidences (body (post_of both_edited_payload))) (fst (''name'', ''name'')) = None"
    using recorded [THEN conjunct2, rule_format, OF name none] .
  ultimately show ?thesis
    using entry by (simp add: post_of_def)
qed

text \<open>
  C10. In every state, the keys of \<open>field_confidences\<close> in a request that \<open>submitForm\<close>
  sends are among the eight scored field names. Editing the control \<open>level\<close> or \<open>logs\<close>
  records the confidence \<open>1\<close> under its id, and no request sent afterwards has that id
  as a key.
\<close>

theorem payload_keys_scored:
  "(\<forall>net q. requests (submitForm net st) = requests st @ [q] \<longrightarrow>
      fst ` set (field_confidences (body q)) \<subseteq>
        {''name'', ''apaar_id'', ''institution_code'', ''organization'', ''internship_title'',
         ''start_date'', ''end_date'', ''hours''}) \<and>
   (\<forall>f\<in>{''level'', ''logs''}. elements st f \<noteq> None \<longrightarrow>
      fieldConfidences (user_edit f v st) f = Some 1 \<and>
      (\<forall>net q. requests (submitForm net (user_edit f v st)) = requests (user_edit f v st) @ [q] \<longrightarrow>
         f \<notin> fst ` set (field_confidences (body q))))"
proof -
  have keys: "fst ` set (field_confidences (body q)) \<subseteq> fst ` set fieldMap"
    if "requests (submitForm net s) = requests s @ [q]" for net s q
  proof
    fix k
    assume "k \<in> fst ` set (field_confidences (body q))"
    then have "map_of (field_confidences (body q)) k \<noteq> None"
      by (simp add: map_of_eq_None_iff)
    then have "map_of fieldMap k \<noteq> None"
      unfolding buildConfidenceObject_map_of [OF posted_confidences [OF that]]
      by (auto split: option.splits)
    then show "k \<in> fst ` set fieldMap"
      by (simp add: map_of_eq_None_iff)
  qed
  have passthrough: "f \<notin> fst ` set fieldMap" if "f \<in> {''level'', ''logs''}" for f
    using that by (auto simp: fieldMap_api_names)
  show ?thesis
  proof (intro conjI allI impI ballI)
    fix net q
    assume "requests (submitForm net st) = requests st @ [q]"
    then show "fst ` set (field_confidences (body q)) \<subseteq>
                 {''name'', ''apaar_id'', ''institution_code'', ''organization'',
                  ''internship_title'', ''start_date'', ''end_date'', ''hours''}"
      using keys by (simp only: fieldMap_api_names [symmetric])
  next
    fix f
    assume "f \<in> {''level'', ''logs''}" "elements st f \<noteq> None"
    then show "fieldConfidences (user_edit f v st) f = Some 1"
      by (auto simp: fieldConfidences_user_edit)
  next
    fix f net q
    assume "f \<in> {''level'', ''logs''}"
      and "requests (submitForm net (user_edit f v st)) = requests (user_edit f v st) @ [q]"
    then show "f \<notin> fst ` set (field_confidences (body q))"
      using keys passthrough by blast
  qed
qed

theorem payload_keys_scored_witness:
  "fieldConfidences both_edited_page ''level'' = Some 1 \<and>
   ''level'' \<notin> fst ` set (field_confidences both_edited_payload) \<and>
   fst ` set (field_confidences both_edited_payload) \<subseteq>
     {''name'', ''apaar_id'', ''institution_code'', ''organization'', ''internship_title'',
      ''start_date'', ''end_date'', ''hours''}"
proof -
  have control: "elements hours_edited_page ''level'' \<noteq> None"
    by (simp add: hours_edited_page_def template_controls)
  have sent: "requests (submitForm server_error (user_edit ''level'' ''UG'' hours_edited_page)) =
                requests (user_edit ''level'' ''UG'' hours_edited_page) @ [post_of both_edited_payload]"
    using both_edited_posted [of server_error] by (simp only: both_edited_page_def)
  have payload: "body (post_of both_edited_payload) = both_edited_payload"
    by (simp add: post_of_def)
  note keys = payload_keys_scored [of "user_edit ''level'' ''UG'' hours_edited_page" "''UG''",
      THEN conjunct1, rule_format, OF sent]
  have "''level'' \<in> {''level'', ''logs''}" by simp
  note edit = payload_keys_scored [of hours_edited_page "''UG''", THEN conjunct2, rule_format,
      OF this control]
  have "''level'' \<notin> fst ` set (field_confidences (body (post_of both_edited_payload)))"
    using edit sent by blast
  then show ?thesis
    using keys edit [THEN conjunct1] payload by (simp add: both_edited_page_def)
qed

subsection \<open>The upload page\<close>

lemma dropWhile_all_iff:
  "(\<forall>x\<in>set (dropWhile P xs). P x) \<longleftrightarrow> (\<forall>x\<in>set xs. P x)"
proof
  assume all: "\<forall>x\<in>set (dropWhile P xs). P x"
  have "dropWhile P xs = []"
  proof (rule ccontr)
    assume ne: "dropWhile P xs \<noteq> []"
    then have "\<not> P (hd (dropWhile P xs))" by (rule hd_dropWhile)
    moreover have "hd (dropWhile P xs) \<in> set (dropWhile P xs)" using ne by simp
    ultimately show False using all by blast
  qed
  then show "\<forall>x\<in>set xs. P x" by (simp add: dropWhile_eq_Nil_conv)
next
  assume "\<forall>x\<in>set xs. P x"
  then show "\<forall>x\<in>set (dropWhile P xs). P x" by (meson set_dropWhileD)
qed

lemma trim_Nil_iff: "trim s = [] \<longleftrightarrow> (\<forall>u\<in>set s. isWhiteSpace u)"
  by (simp add: trim_def dropWhile_eq_Nil_conv dropWhile_all_iff)

lemma hasText_iff: "length (trim s) > 0 \<longleftrightarrow> (\<exists>u\<in>set s. \<not> isWhiteSpace u)"
  using trim_Nil_iff [of s] by auto

lemma fetched_showError [simp]: "fetched (showError m st) = fetched st"
  by (simp add: showError_def)

lemma fetched_updateProgress [simp]: "fetched (updateProgress p t st) = fetched st"
  by (simp add: updateProgress_def)

lemma fetched_catch_extract [simp]: "fetched (catch_extract e st) = fetched st"
  by (simp add: catch_extract_def Let_def)

lemma fetched_try_extract:
  "\<exists>r. fetched (fst (try_extract hf net st)) = fetched st @ [r]"
  by (cases net) (auto simp: try_extract_def Let_def split: json_result.splits)

lemma extract_click_invalid:
  assumes "(certificateFile st \<noteq> []) = (\<exists>u\<in>set (certificateText st). \<not> isWhiteSpace u)"
  shows "extract_click net st =
           showError (if certificateFile st \<noteq> []
                      then ''Please use either file upload or text paste, not both''
                      else ''Please upload a file or paste certificate text'') st"
  using assms hasText_iff [of "certificateText st"]
  by (auto simp: extract_click_def Let_def)

lemma extract_click_valid:
  assumes "(certificateFile st \<noteq> []) \<noteq> (\<exists>u\<in>set (certificateText st). \<not> isWhiteSpace u)"
  shows "\<exists>r. fetched (extract_click net st) = fetched st @ [r]"
proof -
  let ?st1 = "st\<lparr>errorRegion := (errorRegion st)\<lparr>display := ''none''\<rparr>,
                       progressSection := (progressSection st)\<lparr>display := ''block''\<rparr>,
                       extractBtn := (extractBtn st)\<lparr>disabled := True\<rparr>\<rparr>"
  obtain r where r: "fetched (fst (try_extract (certificateFile st \<noteq> []) net ?st1)) = fetched ?st1 @ [r]"
    using fetched_try_extract by blast
  have "extract_click net st =
          (case try_extract (certificateFile st \<noteq> []) net ?st1 of
             (st', None) \<Rightarrow> st' | (st', Some error) \<Rightarrow> catch_extract error st')"
    using assms hasText_iff [of "certificateText st"]
    by (auto simp: extract_click_def Let_def)
  then show ?thesis using r
    by (auto split: prod.splits option.splits)
qed

lemma catch_extract_fields:
  "errorRegion (catch_extract e st) =
     (errorRegion st)\<lparr>display := ''block'', textContent := ''Extraction failed: '' @ message e\<rparr>"
  "progressSection (catch_extract e st) = (progressSection st)\<lparr>display := ''none''\<rparr>"
  "extractBtn (catch_extract e st) = (extractBtn st)\<lparr>disabled := False\<rparr>"
  "navigated (catch_extract e st) = navigated st"
  by (simp_all add: catch_extract_def showError_def Let_def)

lemma try_extract_Rejected:
  "snd (try_extract hf (Rejected e) st) = Some e"
  "navigated (fst (try_extract hf (Rejected e) st)) = navigated st"
  by (simp_all add: try_extract_def Let_def updateProgress_def)

lemma try_extract_not_ok:
  "\<not> ok r \<Longrightarrow> snd (try_extract hf (Resolved r) st) = Some (Error ''Upload failed'')"
  "\<not> ok r \<Longrightarrow> navigated (fst (try_extract hf (Resolved r) st)) = navigated st"
  by (simp_all add: try_extract_def Let_def updateProgress_def)

lemma extract_click_try:
  assumes "(certificateFile st \<noteq> []) \<noteq> (\<exists>u\<in>set (certificateText st). \<not> isWhiteSpace u)"
  shows "extract_click net st =
          (case try_extract (certificateFile st \<noteq> []) net
                  (st\<lparr>errorRegion := (errorRegion st)\<lparr>display := ''none''\<rparr>,
                      progressSection := (progressSection st)\<lparr>display := ''block''\<rparr>,
                      extractBtn := (extractBtn st)\<lparr>disabled := True\<rparr>\<rparr>) of
             (st', None) \<Rightarrow> st' | (st', Some error) \<Rightarrow> catch_extract error st')"
  using assms hasText_iff [of "certificateText st"]
  by (auto simp: extract_click_def Let_def)

text \<open>
  C5, as the code has it. The text counts as present when it has a code unit that is not
  white space. When file and text are both present, or both absent, the click shows the
  validation message in the error region, sends no request and does not navigate. In
  every other case exactly one request is sent.
\<close>

theorem extract_click_validation:
  "((certificateFile st \<noteq> []) = (\<exists>u\<in>set (certificateText st). \<not> isWhiteSpace u) \<longrightarrow>
      extract_click net st =
        showError (if certificateFile st \<noteq> []
                   then ''Please use either file upload or text paste, not both''
                   else ''Please upload a file or paste certificate text'') st \<and>
      display (errorRegion (extract_click net st)) = ''block'' \<and>
      fetched (extract_click net st) = fetched st \<and>
      navigated (extract_click net st) = navigated st) \<and>
   ((certificateFile st \<noteq> []) \<noteq> (\<exists>u\<in>set (certificateText st). \<not> isWhiteSpace u) \<longrightarrow>
      (\<exists>r. fetched (extract_click net st) = fetched st @ [r]))"
proof (intro conjI impI)
  assume a: "(certificateFile st \<noteq> []) = (\<exists>u\<in>set (certificateText st). \<not> isWhiteSpace u)"
  show eq: "extract_click net st =
        showError (if certificateFile st \<noteq> []
                   then ''Please use either file upload or text paste, not both''
                   else ''Please upload a file or paste certificate text'') st"
    using a by (rule extract_click_invalid)
  show "display (errorRegion (extract_click net st)) = ''block''"
    unfolding eq by (simp add: showError_def)
  show "fetched (extract_click net st) = fetched st"
    unfolding eq by simp
  show "navigated (extract_click net st) = navigated st"
    unfolding eq by (simp add: showError_def)
next
  assume "(certificateFile st \<noteq> []) \<noteq> (\<exists>u\<in>set (certificateText st). \<not> isWhiteSpace u)"
  then show "\<exists>r. fetched (extract_click net st) = fetched st @ [r]"
    by (rule extract_click_valid)
qed

lemma upload_both_facts:
  "certificateFile upload_both \<noteq> []" "\<exists>u\<in>set (certificateText upload_both). \<not> isWhiteSpace u"
  "fetched upload_both = []"
  by (simp_all add: upload_both_def upload_template_def isWhiteSpace_def)

lemma upload_blank_text_facts:
  "certificateFile upload_blank_text \<noteq> []" "\<not> (\<exists>u\<in>set (certificateText upload_blank_text). \<not> isWhiteSpace u)"
  "fetched upload_blank_text = []" "certificateText upload_blank_text \<noteq> []"
  "navigated upload_blank_text = None"
  by (simp_all add: upload_blank_text_def upload_template_def isWhiteSpace_def)

theorem extract_click_validation_witness:
  "fetched (extract_click redirecting upload_both) = [] \<and>
   textContent (errorRegion (extract_click redirecting upload_both)) =
     ''Please use either file upload or text paste, not both'' \<and>
   length (fetched (extract_click redirecting upload_blank_text)) = 1"
  using extract_click_validation [of upload_both redirecting]
        extract_click_validation [of upload_blank_text redirecting]
        upload_both_facts upload_blank_text_facts
  by (auto simp: showError_def)

text \<open>
  C5 as stated fails: with a file chosen and a text that is not empty but holds only a
  space, the request is sent with the file and no validation error is shown.
\<close>

theorem extract_click_blank_text_counterexample:
  "certificateFile upload_blank_text \<noteq> [] \<and> certificateText upload_blank_text \<noteq> [] \<and>
   fetched (extract_click redirecting upload_blank_text) =
     [\<lparr>upload_url = upload_endpoint, upload_method = ''POST'', upload_content_type = None,
       upload_body = FormData (Some (File ''certificate.pdf''))\<rparr>] \<and>
   display (errorRegion (extract_click redirecting upload_blank_text)) = ''none''"
  using upload_blank_text_facts
  by (simp add: extract_click_try redirecting_def try_extract_def Let_def updateProgress_def
      first_file_def)
     (simp add: upload_blank_text_def upload_template_def)

text \<open>
  C9. When the input is valid and the request fails, by a network error \<open>e\<close> or by a
  response that is not a success, the error region shows \<open>Extraction failed: \<close>
  followed by the message of the error, the progress section is hidden, the button is
  enabled again, the page has not navigated, and the one request of this click is the
  only one sent.
\<close>

theorem extract_click_failure:
  assumes valid: "(certificateFile st \<noteq> []) \<noteq> (\<exists>u\<in>set (certificateText st). \<not> isWhiteSpace u)"
      and failed: "net = Rejected e \<or> (\<exists>r. net = Resolved r \<and> \<not> ok r \<and> e = Error ''Upload failed'')"
  shows "display (errorRegion (extract_click net st)) = ''block'' \<and>
         textContent (errorRegion (extract_click net st)) = ''Extraction failed: '' @ message e \<and>
         take 18 (textContent (errorRegion (extract_click net st))) = ''Extraction failed:'' \<and>
         display (progressSection (extract_click net st)) = ''none'' \<and>
         \<not> disabled (extractBtn (extract_click net st)) \<and>
         navigated (extract_click net st) = navigated st \<and>
         (\<exists>q. fetched (extract_click net st) = fetched st @ [q])"
proof -
  let ?st1 = "st\<lparr>errorRegion := (errorRegion st)\<lparr>display := ''none''\<rparr>,
                 progressSection := (progressSection st)\<lparr>display := ''block''\<rparr>,
                 extractBtn := (extractBtn st)\<lparr>disabled := True\<rparr>\<rparr>"
  let ?t = "try_extract (certificateFile st \<noteq> []) net ?st1"
  have thrown: "snd ?t = Some e" and nav: "navigated (fst ?t) = navigated st"
    using failed try_extract_Rejected [of _ e ?st1] try_extract_not_ok [of _ _ ?st1]
    by auto
  have click: "extract_click net st = catch_extract e (fst ?t)"
    using extract_click_try [OF valid, of net] thrown
    by (simp add: case_prod_unfold)
  show ?thesis
    unfolding click
    using nav extract_click_valid [OF valid, of net]
    by (simp add: catch_extract_fields click)
qed

theorem extract_click_failure_witness:
  "textContent (errorRegion (extract_click server_error upload_pasted)) =
     ''Extraction failed: Upload failed'' \<and>
   \<not> disabled (extractBtn (extract_click server_error upload_pasted)) \<and>
   navigated (extract_click server_error upload_pasted) = None \<and>
   length (fetched (extract_click server_error upload_pasted)) = 1 \<and>
   textContent (errorRegion (extract_click (Rejected (TypeError ''Failed to fetch'')) upload_pasted)) =
     ''Extraction failed: Failed to fetch''"
proof -
  have valid: "(certificateFile upload_pasted \<noteq> []) \<noteq>
                 (\<exists>u\<in>set (certificateText upload_pasted). \<not> isWhiteSpace u)"
    by (simp add: upload_pasted_def upload_template_def isWhiteSpace_def)
  have init: "navigated upload_pasted = None" "fetched upload_pasted = []"
    by (simp_all add: upload_pasted_def upload_template_def)
  have f1: "server_error = Rejected (Error ''Upload failed'') \<or>
            (\<exists>r. server_error = Resolved r \<and> \<not> ok r \<and> Error ''Upload failed'' = Error ''Upload failed'')"
    by (simp add: server_error_def)
  show ?thesis
    using extract_click_failure [OF valid f1]
          extract_click_failure [OF valid, of "Rejected (TypeError ''Failed to fetch'')" "TypeError ''Failed to fetch''"]
          init
    by auto
qed

end
